theory Spec2Isabelle
  imports Main "HOL-Library.Word"
begin

section \<open>Data model of \<open>AbstractTransport.ts\<close>\<close>

text \<open>
  The class \<open>AbstractTransport\<close> keeps five mutable or read-only fields that matter for
  its behaviour: \<open>transportName\<close>, \<open>debug\<close> (a \<open>debug.Debugger\<close>, of which only the
  namespace is observable), \<open>_started\<close>, \<open>_network\<close> and the JavaScript \<open>Set\<close> called
  \<open>peers\<close>. Everything else it touches belongs to collaborators: the \<open>Peer\<close> objects
  (their \<open>connected\<close> flag, their \<open>id\<close>, the listeners subscribed to them), the two
  \<open>atvik\<close> events it emits on, and the debug output. These are made explicit as a heap
  of peer objects and a trace of effects, threaded through every operation.
\<close>

type_synonym bytes = "8 word list"

text \<open>\<open>TransportOptions\<close>: the two fields \<open>start\<close> reads (\<open>options.networkName\<close> and
  \<open>options.networkId\<close>; the latter is renamed because \<open>WithNetwork\<close> has a field of the
  same name).\<close>

record TransportOptions =
  networkName :: string
  options_networkId :: bytes

text \<open>\<open>WithNetwork\<close>: the object literal built in \<open>start\<close>.\<close>

record WithNetwork =
  networkIdBinary :: bytes
  networkId :: string
  debugNamespace :: string

text \<open>
  The closures that \<open>addPeer\<close> subscribes to a peer, defunctionalised: \<open>OnConnect p\<close> is
  the arrow function \<open>onConnect\<close> with \<open>peer = p\<close> captured, \<open>OnDisconnect p\<close> the arrow
  function handed to \<open>peer.onDisconnect\<close>. Every call of \<open>addPeer\<close> creates a new pair.
\<close>

datatype 'p listener = OnConnect 'p | OnDisconnect 'p

text \<open>
  A \<open>Peer\<close> object as far as \<open>AbstractTransport\<close> uses it: \<open>peer.id\<close>, \<open>peer.connected\<close>,
  and the listeners subscribed through \<open>peer.onConnect\<close> and \<open>peer.onDisconnect\<close>, in
  registration order. Peer instances are referred to by values of type \<open>'p\<close>.

  Modelled from the spec: how \<open>peer.disconnect()\<close> behaves is up to the \<open>Peer\<close>
  implementation, which is imported from \<open>./Peer\<close>; it is ``expected to synchronously or
  asynchronously deliver a disconnect notification''. The field \<open>syncDisconnect\<close> says
  which of the two a peer does.
\<close>

record 'p Peer =
  peer_id :: bytes
  connected :: bool
  connectListeners :: "'p listener list"
  disconnectListeners :: "'p listener list"
  syncDisconnect :: bool

text \<open>What the transport does to the outside, in the order it does it.\<close>

datatype 'p effect =
    PeerConnectEmit 'p          \<comment> \<open>\<open>this.peerConnectEvent.emit(peer)\<close>\<close>
  | PeerDisconnectEmit 'p       \<comment> \<open>\<open>this.peerDisconnectEvent.emit(peer)\<close>\<close>
  | DisconnectCall 'p           \<comment> \<open>\<open>peer.disconnect()\<close>\<close>
  | DebugLog string "string list" \<comment> \<open>\<open>this.debug(...)\<close>: namespace and arguments\<close>

text \<open>
  The transport object together with the peer heap and the effect trace. The field
  \<open>debug\<close> holds the namespace of the current debugger; \<open>u_started\<close> and \<open>u_network\<close>
  are the private fields \<open>_started\<close> and \<open>_network\<close>; \<open>peers\<close> is the \<open>Set<Peer>\<close>, kept
  as the list of its entries in insertion order (the order in which a JavaScript \<open>Set\<close>
  is iterated).
\<close>

record 'p world =
  transportName :: string
  debug :: string
  u_started :: bool
  u_network :: "WithNetwork option"
  peers :: "'p list"
  heap :: "'p \<Rightarrow> 'p Peer"
  effects :: "'p effect list"

datatype error = Error string

section \<open>Collaborators\<close>

text \<open>\<open>Set.prototype.add\<close>: an entry already present is not added again.\<close>

definition Set_add :: "'a \<Rightarrow> 'a list \<Rightarrow> 'a list" where
  "Set_add x xs = (if x \<in> set xs then xs else xs @ [x])"

text \<open>\<open>Set.prototype.delete\<close>: removing an absent entry changes nothing.\<close>

definition Set_delete :: "'a \<Rightarrow> 'a list \<Rightarrow> 'a list" where
  "Set_delete x xs = removeAll x xs"

text \<open>A call \<open>this.debug(args)\<close>: output tagged with the current namespace.\<close>

definition debug_call :: "string list \<Rightarrow> 'p world \<Rightarrow> 'p world" where
  "debug_call args w = w\<lparr>effects := effects w @ [DebugLog (debug w) args]\<rparr>"

definition emit :: "'p effect \<Rightarrow> 'p world \<Rightarrow> 'p world" where
  "emit e w = w\<lparr>effects := effects w @ [e]\<rparr>"

text \<open>
  Modelled from the spec: the \<open>Peer\<close> interface is imported from \<open>./Peer\<close>, which is not
  part of the sources at hand. Subscribing through \<open>peer.onConnect\<close> or
  \<open>peer.onDisconnect\<close> appends the listener to the peer's list (``a registry of listener
  functions \dots emit invoking listeners synchronously in registration order'').
\<close>

definition peer_onConnect :: "'p \<Rightarrow> 'p listener \<Rightarrow> 'p world \<Rightarrow> 'p world" where
  "peer_onConnect p l w =
     w\<lparr>heap := (heap w)(p := (heap w p)\<lparr>connectListeners := connectListeners (heap w p) @ [l]\<rparr>)\<rparr>"

definition peer_onDisconnect :: "'p \<Rightarrow> 'p listener \<Rightarrow> 'p world \<Rightarrow> 'p world" where
  "peer_onDisconnect p l w =
     w\<lparr>heap := (heap w)(p := (heap w p)\<lparr>disconnectListeners := disconnectListeners (heap w p) @ [l]\<rparr>)\<rparr>"

section \<open>The class \<open>AbstractTransport\<close>\<close>

text \<open>The constructor; \<open>h\<close> is the heap of peer objects the transport will meet.\<close>

definition new_AbstractTransport :: "string \<Rightarrow> ('p \<Rightarrow> 'p Peer) \<Rightarrow> 'p world" where
  "new_AbstractTransport name h =
     \<lparr>transportName = name,
      debug = ''ataraxia:no-network:'' @ name,
      u_started = False,
      u_network = None,
      peers = [],
      heap = h,
      effects = []\<rparr>"

text \<open>The getter \<open>started\<close>.\<close>

definition started :: "'p world \<Rightarrow> bool" where
  "started w = u_started w"

text \<open>The getter \<open>network\<close>, which throws while \<open>_network\<close> is undefined.\<close>

definition network :: "'p world \<Rightarrow> error + WithNetwork" where
  "network w =
     (case u_network w of
        None \<Rightarrow> Inl (Error ''Can't access network before start() is called'')
      | Some n \<Rightarrow> Inr n)"

text \<open>
  \<open>start\<close>. The function \<open>encodeId\<close> is imported from \<open>../id\<close> and is a parameter here.
  The body has no \<open>await\<close>, so it runs to its end when called; the value is the one the
  returned promise resolves to.
\<close>

definition start :: "(bytes \<Rightarrow> string) \<Rightarrow> TransportOptions \<Rightarrow> 'p world \<Rightarrow> bool \<times> 'p world" where
  "start encodeId options w =
     (if u_started w then (False, w)
      else
        let w1 = w\<lparr>debug := ''ataraxia:'' @ networkName options @ '':'' @ transportName w\<rparr>;
            w2 = w1\<lparr>u_started := True\<rparr>;
            w3 = debug_call [''Starting with id '' @ encodeId (options_networkId options)] w2;
            w4 = w3\<lparr>u_network := Some
                   \<lparr>networkIdBinary = options_networkId options,
                    networkId = encodeId (options_networkId options),
                    debugNamespace = debug w3\<rparr>\<rparr>
        in (True, w4))"

text \<open>The closure \<open>onConnect\<close> of \<open>addPeer\<close>.\<close>

definition onConnect :: "(bytes \<Rightarrow> string) \<Rightarrow> 'p \<Rightarrow> 'p world \<Rightarrow> 'p world" where
  "onConnect encodeId peer w =
     (let w1 = w\<lparr>peers := Set_add peer (peers w)\<rparr>;
          w2 = debug_call [''Peer with id'', encodeId (peer_id (heap w1 peer)), ''is now available''] w1
      in emit (PeerConnectEmit peer) w2)"

text \<open>The closure that \<open>addPeer\<close> passes to \<open>peer.onDisconnect\<close>.\<close>

definition onDisconnect :: "(bytes \<Rightarrow> string) \<Rightarrow> 'p \<Rightarrow> 'p world \<Rightarrow> 'p world" where
  "onDisconnect encodeId peer w =
     (let w1 = w\<lparr>peers := Set_delete peer (peers w)\<rparr>;
          w2 = debug_call [''Peer with id'', encodeId (peer_id (heap w1 peer)), ''is no longer available''] w1
      in emit (PeerDisconnectEmit peer) w2)"

fun call_listener :: "(bytes \<Rightarrow> string) \<Rightarrow> 'p listener \<Rightarrow> 'p world \<Rightarrow> 'p world" where
  "call_listener encodeId (OnConnect p) w = onConnect encodeId p w"
| "call_listener encodeId (OnDisconnect p) w = onDisconnect encodeId p w"

text \<open>\<open>addPeer\<close>.\<close>

definition addPeer :: "(bytes \<Rightarrow> string) \<Rightarrow> 'p \<Rightarrow> 'p world \<Rightarrow> 'p world" where
  "addPeer encodeId peer w =
     (let w1 = peer_onConnect peer (OnConnect peer) w;
          w2 = peer_onDisconnect peer (OnDisconnect peer) w1
      in if connected (heap w2 peer) then onConnect encodeId peer w2 else w2)"

section \<open>Notifications delivered by a peer\<close>

text \<open>
  Modelled from the spec: the \<open>Peer\<close> implementation is not part of the sources at hand.
  Its state is ``boolean connected/disconnected, transition-driven''; a connect
  notification marks the peer connected and calls the connect listeners in registration
  order, a disconnect notification marks it disconnected and calls the disconnect
  listeners. Nothing here prevents a peer from delivering the same notification twice.
\<close>

definition connectNotification :: "(bytes \<Rightarrow> string) \<Rightarrow> 'p \<Rightarrow> 'p world \<Rightarrow> 'p world" where
  "connectNotification encodeId p w =
     fold (call_listener encodeId) (connectListeners (heap w p))
       (w\<lparr>heap := (heap w)(p := (heap w p)\<lparr>connected := True\<rparr>)\<rparr>)"

definition disconnectNotification :: "(bytes \<Rightarrow> string) \<Rightarrow> 'p \<Rightarrow> 'p world \<Rightarrow> 'p world" where
  "disconnectNotification encodeId p w =
     fold (call_listener encodeId) (disconnectListeners (heap w p))
       (w\<lparr>heap := (heap w)(p := (heap w p)\<lparr>connected := False\<rparr>)\<rparr>)"

text \<open>
  Modelled from the spec: \<open>peer.disconnect()\<close> of the absent \<open>Peer\<close> implementation is
  ``a \<open>disconnect()\<close> request operation (fire-and-forget, idempotent)'', ``expected to
  synchronously or asynchronously deliver a disconnect notification that the registry
  also observes'', and notifications are ``exactly-once per transition''. The call is
  recorded in the trace. A connected peer with \<open>syncDisconnect\<close> delivers its disconnect
  notification before \<open>disconnect()\<close> returns, so the listeners run inside the caller; any
  other connected peer delivers it later, as a step \<open>disconnectNotification\<close> of its own.
  A peer that is not connected has no transition to notify.
\<close>

definition peer_disconnect :: "(bytes \<Rightarrow> string) \<Rightarrow> 'p \<Rightarrow> 'p world \<Rightarrow> 'p world" where
  "peer_disconnect encodeId p w =
     (let w1 = emit (DisconnectCall p) w
      in if syncDisconnect (heap w1 p) \<and> connected (heap w1 p)
         then disconnectNotification encodeId p w1
         else w1)"

section \<open>Stopping\<close>

text \<open>
  The loop \<open>for (const peer of this.peers.values()) { peer.disconnect(); }\<close> of \<open>stop\<close>
  iterates over the live \<open>Set\<close>, and its body can run the disconnect listener of
  \<open>addPeer\<close>, which deletes from that \<open>Set\<close>. A \<open>Set\<close> iterator goes through the entries in
  insertion order and passes over an entry that has been deleted before its turn. The first
  argument of \<open>stop_loop\<close> is what the iterator has still before it, taken from the entries
  at the start of the loop; an entry is visited only if it is still in the \<open>Set\<close> when its
  turn comes. (The body never adds an entry: the listeners of a disconnect notification are
  the closures that \<open>addPeer\<close> handed to \<open>peer.onDisconnect\<close>, see \<open>tracking_invariant\<close>.)
\<close>

fun stop_loop :: "(bytes \<Rightarrow> string) \<Rightarrow> 'p list \<Rightarrow> 'p world \<Rightarrow> 'p world" where
  "stop_loop encodeId [] w = w"
| "stop_loop encodeId (peer # rest) w =
     (if peer \<in> set (peers w)
      then stop_loop encodeId rest (peer_disconnect encodeId peer w)
      else stop_loop encodeId rest w)"

text \<open>\<open>stop\<close>.\<close>

definition stop :: "(bytes \<Rightarrow> string) \<Rightarrow> 'p world \<Rightarrow> bool \<times> 'p world" where
  "stop encodeId w =
     (if \<not> u_started w then (False, w)
      else
        let w1 = stop_loop encodeId (peers w) w
        in (True, w1\<lparr>u_started := False\<rparr>))"

section \<open>Histories\<close>

text \<open>
  What can happen to a transport: its two public methods, \<open>addPeer\<close> called by the
  concrete transport, and the notifications of the peers.
\<close>

datatype 'p operation =
    Start TransportOptions
  | Stop
  | AddPeer 'p
  | ConnectNotification 'p
  | DisconnectNotification 'p

text \<open>One operation: the boolean a lifecycle call returns (if any) and the next state.\<close>

fun perform :: "(bytes \<Rightarrow> string) \<Rightarrow> 'p operation \<Rightarrow> 'p world \<Rightarrow> bool option \<times> 'p world" where
  "perform encodeId (Start options) w = apfst Some (start encodeId options w)"
| "perform encodeId Stop w = apfst Some (stop encodeId w)"
| "perform encodeId (AddPeer p) w = (None, addPeer encodeId p w)"
| "perform encodeId (ConnectNotification p) w = (None, connectNotification encodeId p w)"
| "perform encodeId (DisconnectNotification p) w = (None, disconnectNotification encodeId p w)"

text \<open>A history, run from left to right: the state it ends in, and what the calls returned.\<close>

fun run :: "(bytes \<Rightarrow> string) \<Rightarrow> 'p operation list \<Rightarrow> 'p world \<Rightarrow> 'p world" where
  "run encodeId [] w = w"
| "run encodeId (x # xs) w = run encodeId xs (snd (perform encodeId x w))"

fun results :: "(bytes \<Rightarrow> string) \<Rightarrow> 'p operation list \<Rightarrow> 'p world \<Rightarrow> bool option list" where
  "results encodeId [] w = []"
| "results encodeId (x # xs) w =
     fst (perform encodeId x w) # results encodeId xs (snd (perform encodeId x w))"

text \<open>A heap of peers nobody has subscribed to yet.\<close>

definition fresh_heap ::
  "('p \<Rightarrow> bytes) \<Rightarrow> ('p \<Rightarrow> bool) \<Rightarrow> ('p \<Rightarrow> bool) \<Rightarrow> 'p \<Rightarrow> 'p Peer" where
  "fresh_heap ident conn sync p =
     \<lparr>peer_id = ident p, connected = conn p, connectListeners = [], disconnectListeners = [],
      syncDisconnect = sync p\<rparr>"

text \<open>Counting the events of one kind for one peer in a trace.\<close>

definition connectEvents :: "'p \<Rightarrow> 'p effect list \<Rightarrow> nat" where
  "connectEvents p es = count_list es (PeerConnectEmit p)"

definition disconnectEvents :: "'p \<Rightarrow> 'p effect list \<Rightarrow> nat" where
  "disconnectEvents p es = count_list es (PeerDisconnectEmit p)"

definition disconnectCalls :: "'p \<Rightarrow> 'p effect list \<Rightarrow> nat" where
  "disconnectCalls p es = count_list es (DisconnectCall p)"

section \<open>Specification-side definitions\<close>

text \<open>The two lifecycle states of the specification, and the one a transport is in.\<close>

datatype lifecycle = Stopped | Started

definition lifecycle_of :: "'p world \<Rightarrow> lifecycle" where
  "lifecycle_of w = (if u_started w then Started else Stopped)"

text \<open>
  What the specification says the calls of a history return: \<open>start\<close> returns \<open>true\<close>
  exactly when the state is Stopped and leaves the state Started, \<open>stop\<close> returns \<open>true\<close>
  exactly when the state is Started and leaves it Stopped; the other operations return
  nothing and leave the state alone.
\<close>

fun spec_results :: "lifecycle \<Rightarrow> 'p operation list \<Rightarrow> bool option list" where
  "spec_results s [] = []"
| "spec_results s (Start options # xs) = Some (s = Stopped) # spec_results Started xs"
| "spec_results s (Stop # xs) = Some (s = Started) # spec_results Stopped xs"
| "spec_results s (x # xs) = None # spec_results s xs"

text \<open>Whether an operation is a call of \<open>start\<close>.\<close>

fun isStart :: "'p operation \<Rightarrow> bool" where
  "isStart (Start options) = True"
| "isStart x = False"

text \<open>
  The options of the most recent \<open>start\<close> call of a history that found the transport
  Stopped, given the lifecycle state and the options bound before the history.
\<close>

fun bound_options ::
  "lifecycle \<Rightarrow> TransportOptions option \<Rightarrow> 'p operation list \<Rightarrow> TransportOptions option" where
  "bound_options s b [] = b"
| "bound_options s b (Start options # xs) =
     (if s = Stopped then bound_options Started (Some options) xs else bound_options Started b xs)"
| "bound_options s b (Stop # xs) = bound_options Stopped b xs"
| "bound_options s b (x # xs) = bound_options s b xs"

text \<open>The context that \<open>start\<close> derives from its options, for a transport called \<open>name\<close>.\<close>

definition context_of :: "(bytes \<Rightarrow> string) \<Rightarrow> string \<Rightarrow> TransportOptions \<Rightarrow> WithNetwork" where
  "context_of encodeId name options =
     \<lparr>networkIdBinary = options_networkId options,
      networkId = encodeId (options_networkId options),
      debugNamespace = ''ataraxia:'' @ networkName options @ '':'' @ name\<rparr>"

text \<open>
  Whether a history contains a call \<open>addPeer(p)\<close> made after some call of \<open>start\<close>; the
  flag says whether \<open>start\<close> has been called before the history.
\<close>

fun addedAfterStart :: "bool \<Rightarrow> 'p \<Rightarrow> 'p operation list \<Rightarrow> bool" where
  "addedAfterStart st p [] = False"
| "addedAfterStart st p (Start options # xs) = addedAfterStart True p xs"
| "addedAfterStart st p (AddPeer q # xs) = ((st \<and> q = p) \<or> addedAfterStart st p xs)"
| "addedAfterStart st p (x # xs) = addedAfterStart st p xs"

text \<open>
  What holds of the tracked set and the listeners in every state a history can reach:
  the set has no entry twice; the listeners of a peer are the closures \<open>addPeer\<close> made for
  that peer, as many for disconnect as for connect; and a peer is tracked exactly when it
  is connected and has a listener.
\<close>

definition tracking_invariant :: "'p world \<Rightarrow> bool" where
  "tracking_invariant w \<longleftrightarrow>
     distinct (peers w) \<and>
     (\<forall>q. set (connectListeners (heap w q)) \<subseteq> {OnConnect q} \<and>
          set (disconnectListeners (heap w q)) \<subseteq> {OnDisconnect q} \<and>
          length (disconnectListeners (heap w q)) = length (connectListeners (heap w q)) \<and>
          (q \<in> set (peers w) \<longleftrightarrow> connected (heap w q) \<and> connectListeners (heap w q) \<noteq> []))"

section \<open>A concrete transport\<close>

text \<open>
  A transport named \<open>t\<close> over peers numbered by naturals, of which peer \<open>1\<close> is already
  connected and all others are not, and peer \<open>1\<close> is the one that notifies inside
  \<open>disconnect()\<close>; an encoding that sends the identifier
  \<open>01 02 03 04\<close> to \<open>AQIDBA\<close>.
\<close>

definition example_encodeId :: "bytes \<Rightarrow> string" where
  "example_encodeId b = (if b = [1, 2, 3, 4] then ''AQIDBA'' else ''?'')"

definition example_options :: TransportOptions where
  "example_options = \<lparr>networkName = ''net'', options_networkId = [1, 2, 3, 4]\<rparr>"

definition other_options :: TransportOptions where
  "other_options = \<lparr>networkName = ''other'', options_networkId = [9]\<rparr>"

definition example_heap :: "nat \<Rightarrow> nat Peer" where
  "example_heap = fresh_heap (\<lambda>p. [of_nat p]) (\<lambda>p. p = 1) (\<lambda>p. p = 1)"

definition example_transport :: "nat world" where
  "example_transport = new_AbstractTransport ''t'' example_heap"

section \<open>Basic facts\<close>

lemma stop_started:
  "u_started w \<Longrightarrow> stop e w = (True, (stop_loop e (peers w) w)\<lparr>u_started := False\<rparr>)"
  by (simp add: stop_def)

lemma stop_stopped: "\<not> u_started w \<Longrightarrow> stop e w = (False, w)"
  by (simp add: stop_def)

lemma stop_flag: "fst (stop e w) = u_started w \<and> u_started (snd (stop e w)) = False"
  by (cases "u_started w") (simp_all add: stop_started stop_stopped)

lemma start_started: "u_started w \<Longrightarrow> start encodeId options w = (False, w)"
  by (simp add: start_def)

lemma start_stopped:
  "\<not> u_started w \<Longrightarrow>
   start encodeId options w =
     (True, w\<lparr>debug := ''ataraxia:'' @ networkName options @ '':'' @ transportName w,
              u_started := True,
              effects := effects w @
                [DebugLog (''ataraxia:'' @ networkName options @ '':'' @ transportName w)
                   [''Starting with id '' @ encodeId (options_networkId options)]],
              u_network := Some
                \<lparr>networkIdBinary = options_networkId options,
                 networkId = encodeId (options_networkId options),
                 debugNamespace = ''ataraxia:'' @ networkName options @ '':'' @ transportName w\<rparr>\<rparr>)"
  by (simp add: start_def debug_call_def Let_def)

lemma fold_call_listener_frame:
  "heap (fold (call_listener e) ls w) = heap w \<and>
   u_started (fold (call_listener e) ls w) = u_started w \<and>
   u_network (fold (call_listener e) ls w) = u_network w \<and>
   debug (fold (call_listener e) ls w) = debug w \<and>
   transportName (fold (call_listener e) ls w) = transportName w"
proof (induction ls arbitrary: w)
  case Nil
  show ?case by simp
next
  case (Cons l ls)
  show ?case
    by (cases l) (simp_all add: Cons onConnect_def onDisconnect_def debug_call_def emit_def Let_def)
qed

lemma addPeer_frame:
  "u_started (addPeer e p w) = u_started w \<and>
   u_network (addPeer e p w) = u_network w \<and>
   debug (addPeer e p w) = debug w \<and>
   transportName (addPeer e p w) = transportName w"
  by (simp add: addPeer_def peer_onConnect_def peer_onDisconnect_def onConnect_def
      debug_call_def emit_def Let_def)

lemma connectNotification_frame:
  "u_started (connectNotification e p w) = u_started w \<and>
   u_network (connectNotification e p w) = u_network w \<and>
   debug (connectNotification e p w) = debug w \<and>
   transportName (connectNotification e p w) = transportName w"
  by (simp add: connectNotification_def fold_call_listener_frame)

lemma disconnectNotification_frame:
  "u_started (disconnectNotification e p w) = u_started w \<and>
   u_network (disconnectNotification e p w) = u_network w \<and>
   debug (disconnectNotification e p w) = debug w \<and>
   transportName (disconnectNotification e p w) = transportName w"
  by (simp add: disconnectNotification_def fold_call_listener_frame)

lemma peer_disconnect_frame:
  "u_started (peer_disconnect e p w) = u_started w \<and>
   u_network (peer_disconnect e p w) = u_network w \<and>
   debug (peer_disconnect e p w) = debug w \<and>
   transportName (peer_disconnect e p w) = transportName w"
  by (simp add: peer_disconnect_def emit_def disconnectNotification_frame Let_def)

lemma stop_loop_frame:
  "u_started (stop_loop e ps w) = u_started w \<and>
   u_network (stop_loop e ps w) = u_network w \<and>
   debug (stop_loop e ps w) = debug w \<and>
   transportName (stop_loop e ps w) = transportName w"
  by (induction ps arbitrary: w) (simp_all add: peer_disconnect_frame)

lemma stop_frame:
  "u_network (snd (stop e w)) = u_network w \<and>
   debug (snd (stop e w)) = debug w \<and>
   transportName (snd (stop e w)) = transportName w"
  by (cases "u_started w") (simp_all add: stop_started stop_stopped stop_loop_frame)

lemma results_spec:
  "results e ops w = spec_results (lifecycle_of w) ops"
proof (induction ops arbitrary: w)
  case Nil
  show ?case by simp
next
  case (Cons x xs)
  show ?case
  proof (cases x)
    case (Start options)
    then show ?thesis
      by (cases "u_started w") (simp_all add: Cons lifecycle_of_def start_started start_stopped)
  next
    case Stop
    then show ?thesis
      by (simp add: Cons lifecycle_of_def stop_flag)
  next
    case (AddPeer p)
    then show ?thesis by (simp add: Cons lifecycle_of_def addPeer_frame)
  next
    case (ConnectNotification p)
    then show ?thesis by (simp add: Cons lifecycle_of_def connectNotification_frame)
  next
    case (DisconnectNotification p)
    then show ?thesis by (simp add: Cons lifecycle_of_def disconnectNotification_frame)
  qed
qed

lemma set_Set_add: "set (Set_add x xs) = insert x (set xs)"
  by (auto simp: Set_add_def)

lemma set_Set_delete: "set (Set_delete x xs) = set xs - {x}"
  by (auto simp: Set_delete_def)

lemma distinct_Set_add: "distinct xs \<Longrightarrow> distinct (Set_add x xs)"
  by (simp add: Set_add_def)

lemma distinct_Set_delete: "distinct xs \<Longrightarrow> distinct (Set_delete x xs)"
  by (simp add: Set_delete_def distinct_removeAll)

lemma Set_add_idem: "Set_add x (Set_add x xs) = Set_add x xs"
  by (simp add: Set_add_def)

lemma Set_delete_idem: "Set_delete x (Set_delete x xs) = Set_delete x xs"
  by (simp add: Set_delete_def)

lemma onConnect_fields:
  "peers (onConnect e p w) = Set_add p (peers w)"
  "heap (onConnect e p w) = heap w"
  "effects (onConnect e p w) =
     effects w @ [DebugLog (debug w) [''Peer with id'', e (peer_id (heap w p)), ''is now available''],
                  PeerConnectEmit p]"
  by (simp_all add: onConnect_def debug_call_def emit_def Let_def)

lemma onDisconnect_fields:
  "peers (onDisconnect e p w) = Set_delete p (peers w)"
  "heap (onDisconnect e p w) = heap w"
  "effects (onDisconnect e p w) =
     effects w @ [DebugLog (debug w) [''Peer with id'', e (peer_id (heap w p)), ''is no longer available''],
                  PeerDisconnectEmit p]"
  by (simp_all add: onDisconnect_def debug_call_def emit_def Let_def)

lemma connectEvents_append:
  "connectEvents q (xs @ ys) = connectEvents q xs + connectEvents q ys"
  by (simp add: connectEvents_def)

lemma disconnectEvents_append:
  "disconnectEvents q (xs @ ys) = disconnectEvents q xs + disconnectEvents q ys"
  by (simp add: disconnectEvents_def)

lemma connectEvents_onConnect:
  "connectEvents q (effects (onConnect e p w)) = connectEvents q (effects w) + (if p = q then 1 else 0)"
  by (simp add: onConnect_fields connectEvents_append) (simp add: connectEvents_def)

lemma connectEvents_onDisconnect:
  "connectEvents q (effects (onDisconnect e p w)) = connectEvents q (effects w)"
  by (simp add: onDisconnect_fields connectEvents_append) (simp add: connectEvents_def)

lemma disconnectEvents_onConnect:
  "disconnectEvents q (effects (onConnect e p w)) = disconnectEvents q (effects w)"
  by (simp add: onConnect_fields disconnectEvents_append) (simp add: disconnectEvents_def)

lemma disconnectEvents_onDisconnect:
  "disconnectEvents q (effects (onDisconnect e p w)) =
     disconnectEvents q (effects w) + (if p = q then 1 else 0)"
  by (simp add: onDisconnect_fields disconnectEvents_append) (simp add: disconnectEvents_def)

lemma fold_call_listener_connectEvents:
  "connectEvents q (effects (fold (call_listener e) ls w)) =
     connectEvents q (effects w) + count_list ls (OnConnect q)"
proof (induction ls arbitrary: w)
  case Nil
  show ?case by simp
next
  case (Cons l ls)
  show ?case
    by (cases l) (simp_all add: Cons connectEvents_onConnect connectEvents_onDisconnect)
qed

lemma fold_call_listener_disconnectEvents:
  "disconnectEvents q (effects (fold (call_listener e) ls w)) =
     disconnectEvents q (effects w) + count_list ls (OnDisconnect q)"
proof (induction ls arbitrary: w)
  case Nil
  show ?case by simp
next
  case (Cons l ls)
  show ?case
    by (cases l) (simp_all add: Cons disconnectEvents_onConnect disconnectEvents_onDisconnect)
qed

lemma fold_OnConnect_peers:
  "set ls \<subseteq> {OnConnect p} \<Longrightarrow>
   peers (fold (call_listener e) ls w) = (if ls = [] then peers w else Set_add p (peers w))"
proof (induction ls arbitrary: w)
  case Nil
  show ?case by simp
next
  case (Cons l ls)
  then have l: "l = OnConnect p" and ls: "set ls \<subseteq> {OnConnect p}" by auto
  show ?case
    by (simp add: l Cons.IH [OF ls] onConnect_fields Set_add_idem)
qed

lemma fold_OnDisconnect_peers:
  "set ls \<subseteq> {OnDisconnect p} \<Longrightarrow>
   peers (fold (call_listener e) ls w) = (if ls = [] then peers w else Set_delete p (peers w))"
proof (induction ls arbitrary: w)
  case Nil
  show ?case by simp
next
  case (Cons l ls)
  then have l: "l = OnDisconnect p" and ls: "set ls \<subseteq> {OnDisconnect p}" by auto
  show ?case
    by (simp add: l Cons.IH [OF ls] onDisconnect_fields Set_delete_idem)
qed

lemma addPeer_fields:
  "peers (addPeer e p w) = (if connected (heap w p) then Set_add p (peers w) else peers w)"
  "heap (addPeer e p w) =
     (heap w)(p := (heap w p)\<lparr>connectListeners := connectListeners (heap w p) @ [OnConnect p],
                               disconnectListeners := disconnectListeners (heap w p) @ [OnDisconnect p]\<rparr>)"
  "effects (addPeer e p w) =
     (if connected (heap w p)
      then effects w @ [DebugLog (debug w) [''Peer with id'', e (peer_id (heap w p)), ''is now available''],
                        PeerConnectEmit p]
      else effects w)"
  by (simp_all add: addPeer_def peer_onConnect_def peer_onDisconnect_def onConnect_fields Let_def)

lemma connectNotification_heap:
  "heap (connectNotification e p w) = (heap w)(p := (heap w p)\<lparr>connected := True\<rparr>)"
  by (simp add: connectNotification_def fold_call_listener_frame)

lemma disconnectNotification_heap:
  "heap (disconnectNotification e p w) = (heap w)(p := (heap w p)\<lparr>connected := False\<rparr>)"
  by (simp add: disconnectNotification_def fold_call_listener_frame)

lemma connectNotification_peers:
  "set (connectListeners (heap w p)) \<subseteq> {OnConnect p} \<Longrightarrow>
   peers (connectNotification e p w) =
     (if connectListeners (heap w p) = [] then peers w else Set_add p (peers w))"
  by (simp add: connectNotification_def fold_OnConnect_peers)

lemma disconnectNotification_peers:
  "set (disconnectListeners (heap w p)) \<subseteq> {OnDisconnect p} \<Longrightarrow>
   peers (disconnectNotification e p w) =
     (if disconnectListeners (heap w p) = [] then peers w else Set_delete p (peers w))"
  by (simp add: disconnectNotification_def fold_OnDisconnect_peers)

lemma tracking_invariant_addPeer:
  assumes "tracking_invariant w"
  shows "tracking_invariant (addPeer e p w)"
  using assms
  unfolding tracking_invariant_def
  by (auto simp: addPeer_fields distinct_Set_add set_Set_add)

lemma tracking_invariant_connectNotification:
  assumes "tracking_invariant w"
  shows "tracking_invariant (connectNotification e p w)"
proof -
  have ls: "set (connectListeners (heap w p)) \<subseteq> {OnConnect p}"
    using assms by (simp add: tracking_invariant_def)
  show ?thesis
    using assms
    unfolding tracking_invariant_def
    by (auto simp: connectNotification_heap connectNotification_peers [OF ls]
        distinct_Set_add set_Set_add)
qed

lemma tracking_invariant_disconnectNotification:
  assumes "tracking_invariant w"
  shows "tracking_invariant (disconnectNotification e p w)"
proof -
  have ls: "set (disconnectListeners (heap w p)) \<subseteq> {OnDisconnect p}"
    using assms by (simp add: tracking_invariant_def)
  have "length (disconnectListeners (heap w p)) = length (connectListeners (heap w p))"
    using assms by (simp add: tracking_invariant_def)
  then have len: "disconnectListeners (heap w p) = [] \<longleftrightarrow> connectListeners (heap w p) = []"
    by (metis length_0_conv)
  show ?thesis
    using assms len
    unfolding tracking_invariant_def
    by (auto simp: disconnectNotification_heap disconnectNotification_peers [OF ls]
        distinct_Set_delete set_Set_delete)
qed

lemma tracking_invariant_start:
  "tracking_invariant w \<Longrightarrow> tracking_invariant (snd (start e options w))"
  by (cases "u_started w") (simp_all add: start_started start_stopped tracking_invariant_def)

lemma peer_disconnect_heap:
  "heap (peer_disconnect e p w) =
     (if syncDisconnect (heap w p) \<and> connected (heap w p)
      then (heap w)(p := (heap w p)\<lparr>connected := False\<rparr>)
      else heap w)"
  by (simp add: peer_disconnect_def emit_def disconnectNotification_heap Let_def)

lemma stop_loop_heap:
  "connectListeners (heap (stop_loop e ps w) q) = connectListeners (heap w q) \<and>
   disconnectListeners (heap (stop_loop e ps w) q) = disconnectListeners (heap w q) \<and>
   syncDisconnect (heap (stop_loop e ps w) q) = syncDisconnect (heap w q) \<and>
   peer_id (heap (stop_loop e ps w) q) = peer_id (heap w q) \<and>
   (connected (heap (stop_loop e ps w) q) \<longrightarrow> connected (heap w q))"
proof (induction ps arbitrary: w)
  case Nil
  show ?case by simp
next
  case (Cons a ps)
  show ?case
    using Cons [of "peer_disconnect e a w"] Cons [of w]
    by (auto simp: peer_disconnect_heap split: if_splits)
qed

lemma stop_heap:
  "connectListeners (heap (snd (stop e w)) q) = connectListeners (heap w q) \<and>
   disconnectListeners (heap (snd (stop e w)) q) = disconnectListeners (heap w q) \<and>
   syncDisconnect (heap (snd (stop e w)) q) = syncDisconnect (heap w q) \<and>
   peer_id (heap (snd (stop e w)) q) = peer_id (heap w q) \<and>
   (connected (heap (snd (stop e w)) q) \<longrightarrow> connected (heap w q))"
  by (cases "u_started w") (simp_all add: stop_started stop_stopped stop_loop_heap)

lemma tracking_invariant_emit: "tracking_invariant (emit x w) = tracking_invariant w"
  by (simp add: tracking_invariant_def emit_def)

lemma tracking_invariant_started: "tracking_invariant (w\<lparr>u_started := b\<rparr>) = tracking_invariant w"
  by (simp add: tracking_invariant_def)

lemma tracking_invariant_peer_disconnect:
  "tracking_invariant w \<Longrightarrow> tracking_invariant (peer_disconnect e p w)"
  by (simp add: peer_disconnect_def Let_def tracking_invariant_emit
      tracking_invariant_disconnectNotification)

lemma tracking_invariant_stop_loop:
  "tracking_invariant w \<Longrightarrow> tracking_invariant (stop_loop e ps w)"
  by (induction ps arbitrary: w) (simp_all add: tracking_invariant_peer_disconnect)

lemma tracking_invariant_stop:
  "tracking_invariant w \<Longrightarrow> tracking_invariant (snd (stop e w))"
  by (cases "u_started w")
    (simp_all add: stop_started stop_stopped tracking_invariant_started
      tracking_invariant_stop_loop)

lemma tracking_invariant_perform:
  "tracking_invariant w \<Longrightarrow> tracking_invariant (snd (perform e x w))"
  by (cases x)
    (simp_all add: tracking_invariant_start tracking_invariant_stop tracking_invariant_addPeer
      tracking_invariant_connectNotification tracking_invariant_disconnectNotification)

lemma tracking_invariant_run:
  "tracking_invariant w \<Longrightarrow> tracking_invariant (run e ops w)"
  by (induction ops arbitrary: w) (simp_all add: tracking_invariant_perform)

lemma tracking_invariant_new:
  "tracking_invariant (new_AbstractTransport name (fresh_heap ident conn sync))"
  by (simp add: tracking_invariant_def new_AbstractTransport_def fresh_heap_def)

lemma perform_connectListeners:
  "length (connectListeners (heap (snd (perform e x w)) q)) =
     length (connectListeners (heap w q)) + (if x = AddPeer q then 1 else 0)"
proof (cases x)
  case (Start options)
  then show ?thesis by (cases "u_started w") (simp_all add: start_started start_stopped)
next
  case Stop
  then show ?thesis by (simp add: stop_heap)
next
  case (AddPeer p)
  then show ?thesis by (simp add: addPeer_fields)
next
  case (ConnectNotification p)
  then show ?thesis by (simp add: connectNotification_heap)
next
  case (DisconnectNotification p)
  then show ?thesis by (simp add: disconnectNotification_heap)
qed

lemma run_connectListeners:
  "length (connectListeners (heap (run e ops w) q)) =
     length (connectListeners (heap w q)) + count_list ops (AddPeer q)"
  by (induction ops arbitrary: w) (simp_all add: perform_connectListeners)

lemma tracked_iff:
  "q \<in> set (peers (run e ops (new_AbstractTransport name (fresh_heap ident conn sync)))) \<longleftrightarrow>
     connected (heap (run e ops (new_AbstractTransport name (fresh_heap ident conn sync))) q) \<and>
     AddPeer q \<in> set ops"
proof -
  let ?w0 = "new_AbstractTransport name (fresh_heap ident conn sync)"
  have inv: "tracking_invariant (run e ops ?w0)"
    by (rule tracking_invariant_run [OF tracking_invariant_new])
  have "length (connectListeners (heap (run e ops ?w0) q)) = count_list ops (AddPeer q)"
    by (simp add: run_connectListeners new_AbstractTransport_def fresh_heap_def)
  then have "connectListeners (heap (run e ops ?w0) q) \<noteq> [] \<longleftrightarrow> AddPeer q \<in> set ops"
    by (metis count_list_0_iff length_0_conv)
  with inv show ?thesis
    by (simp add: tracking_invariant_def)
qed
lemmas eval_defs =
  example_transport_def example_heap_def example_options_def other_options_def
  example_encodeId_def new_AbstractTransport_def fresh_heap_def
  start_def stop_def addPeer_def onConnect_def onDisconnect_def
  connectNotification_def disconnectNotification_def
  peer_onConnect_def peer_onDisconnect_def peer_disconnect_def debug_call_def emit_def
  Set_add_def Set_delete_def started_def network_def context_of_def
  connectEvents_def disconnectEvents_def disconnectCalls_def Let_def

lemma count_list_distinct: "distinct ps \<Longrightarrow> count_list ps p = (if p \<in> set ps then 1 else 0)"
  by (induction ps) auto

lemma run_no_start:
  "filter isStart ops = [] \<Longrightarrow>
   u_network (run e ops w) = u_network w \<and> transportName (run e ops w) = transportName w"
proof (induction ops arbitrary: w)
  case Nil
  show ?case by simp
next
  case (Cons x xs)
  then have xs: "filter isStart xs = []" and x: "\<not> isStart x"
    by (auto split: if_splits)
  show ?case
    using x
    by (cases x)
      (simp_all add: Cons.IH [OF xs] stop_frame addPeer_frame connectNotification_frame
        disconnectNotification_frame)
qed

lemma perform_transportName: "transportName (snd (perform e x w)) = transportName w"
proof (cases x)
  case (Start options)
  then show ?thesis by (cases "u_started w") (simp_all add: start_started start_stopped)
qed (simp_all add: stop_frame addPeer_frame connectNotification_frame disconnectNotification_frame)

lemma run_u_network:
  "u_network w = map_option (context_of e (transportName w)) b \<Longrightarrow>
   u_network (run e ops w) =
     map_option (context_of e (transportName w)) (bound_options (lifecycle_of w) b ops)"
proof (induction ops arbitrary: w b)
  case Nil
  then show ?case by simp
next
  case (Cons x xs)
  show ?case
  proof (cases x)
    case (Start options)
    show ?thesis
    proof (cases "u_started w")
      case True
      then show ?thesis
        using Cons.IH [of w b] Cons.prems
        by (simp add: Start start_started lifecycle_of_def)
    next
      case False
      let ?w' = "snd (start e options w)"
      have "u_network ?w' = map_option (context_of e (transportName ?w')) (Some options)"
        by (simp add: start_stopped [OF False] context_of_def)
      from Cons.IH [OF this] show ?thesis
        by (simp add: Start start_stopped [OF False] lifecycle_of_def False)
    qed
  next
    case Stop
    have "u_network (snd (stop e w)) = map_option (context_of e (transportName (snd (stop e w)))) b"
      by (simp add: stop_frame Cons.prems)
    from Cons.IH [OF this] show ?thesis
      by (simp add: Stop stop_frame stop_flag lifecycle_of_def)
  next
    case (AddPeer p)
    have "u_network (addPeer e p w) = map_option (context_of e (transportName (addPeer e p w))) b"
      by (simp add: addPeer_frame Cons.prems)
    from Cons.IH [OF this] show ?thesis
      by (simp add: AddPeer addPeer_frame lifecycle_of_def)
  next
    case (ConnectNotification p)
    have "u_network (connectNotification e p w) =
        map_option (context_of e (transportName (connectNotification e p w))) b"
      by (simp add: connectNotification_frame Cons.prems)
    from Cons.IH [OF this] show ?thesis
      by (simp add: ConnectNotification connectNotification_frame lifecycle_of_def)
  next
    case (DisconnectNotification p)
    have "u_network (disconnectNotification e p w) =
        map_option (context_of e (transportName (disconnectNotification e p w))) b"
      by (simp add: disconnectNotification_frame Cons.prems)
    from Cons.IH [OF this] show ?thesis
      by (simp add: DisconnectNotification disconnectNotification_frame lifecycle_of_def)
  qed
qed

lemma bound_options_None:
  "(s = Started \<longrightarrow> b \<noteq> None) \<Longrightarrow>
   bound_options s b ops = None \<longleftrightarrow> b = None \<and> filter isStart ops = []"
proof (induction ops arbitrary: s b)
  case Nil
  show ?case by simp
next
  case (Cons x xs)
  show ?case
  proof (cases x)
    case (Start options)
    show ?thesis
    proof (cases s)
      case Stopped
      then show ?thesis using Cons.IH [of Started "Some options"] by (simp add: Start)
    next
      case Started
      then show ?thesis using Cons.IH [of Started b] Cons.prems by (simp add: Start)
    qed
  next
    case Stop
    then show ?thesis using Cons.IH [of Stopped b] by simp
  next
    case (AddPeer p)
    then show ?thesis using Cons.IH [of s b] Cons.prems by simp
  next
    case (ConnectNotification p)
    then show ?thesis using Cons.IH [of s b] Cons.prems by simp
  next
    case (DisconnectNotification p)
    then show ?thesis using Cons.IH [of s b] Cons.prems by simp
  qed
qed

lemma run_append: "run e (xs @ ys) w = run e ys (run e xs w)"
  by (induction xs arbitrary: w) simp_all

lemma count_list_only: "set ls \<subseteq> {x} \<Longrightarrow> count_list ls x = length ls"
  by (induction ls) auto

lemma only_one: "set ls \<subseteq> {x} \<Longrightarrow> length ls = Suc 0 \<Longrightarrow> ls = [x]"
  by (cases ls) auto

lemma connectNotification_connectEvents:
  "connectEvents q (effects (connectNotification e p w)) =
     connectEvents q (effects w) + count_list (connectListeners (heap w p)) (OnConnect q)"
  by (simp add: connectNotification_def fold_call_listener_connectEvents)

lemma connectNotification_disconnectEvents:
  "disconnectEvents q (effects (connectNotification e p w)) =
     disconnectEvents q (effects w) + count_list (connectListeners (heap w p)) (OnDisconnect q)"
  by (simp add: connectNotification_def fold_call_listener_disconnectEvents)

lemma disconnectNotification_connectEvents:
  "connectEvents q (effects (disconnectNotification e p w)) =
     connectEvents q (effects w) + count_list (disconnectListeners (heap w p)) (OnConnect q)"
  by (simp add: disconnectNotification_def fold_call_listener_connectEvents)

lemma disconnectNotification_disconnectEvents:
  "disconnectEvents q (effects (disconnectNotification e p w)) =
     disconnectEvents q (effects w) + count_list (disconnectListeners (heap w p)) (OnDisconnect q)"
  by (simp add: disconnectNotification_def fold_call_listener_disconnectEvents)

lemma reachable_invariant:
  "tracking_invariant (run e ops (new_AbstractTransport name (fresh_heap ident conn sync)))"
  by (rule tracking_invariant_run [OF tracking_invariant_new])

lemma reachable_connectListeners:
  "length (connectListeners (heap (run e ops (new_AbstractTransport name (fresh_heap ident conn sync))) q))
     = count_list ops (AddPeer q)"
  by (simp add: run_connectListeners new_AbstractTransport_def fresh_heap_def)

lemma effects_emit:
  "connectEvents q (effects (emit (DisconnectCall p) w)) = connectEvents q (effects w)"
  "disconnectEvents q (effects (emit (DisconnectCall p) w)) = disconnectEvents q (effects w)"
  "disconnectCalls q (effects (emit (DisconnectCall p) w)) =
     disconnectCalls q (effects w) + (if q = p then 1 else 0)"
  by (simp_all add: emit_def connectEvents_def disconnectEvents_def disconnectCalls_def)

lemma fold_call_listener_disconnectCalls:
  "disconnectCalls q (effects (fold (call_listener e) ls w)) = disconnectCalls q (effects w)"
proof (induction ls arbitrary: w)
  case Nil
  show ?case by simp
next
  case (Cons l ls)
  have "disconnectCalls q (effects (call_listener e l w)) = disconnectCalls q (effects w)"
    by (cases l) (simp_all add: onConnect_fields onDisconnect_fields disconnectCalls_def)
  then show ?case by (simp add: Cons)
qed

lemma disconnectNotification_disconnectCalls:
  "disconnectCalls q (effects (disconnectNotification e p w)) = disconnectCalls q (effects w)"
  by (simp add: disconnectNotification_def fold_call_listener_disconnectCalls)

lemma peer_disconnect_disconnectCalls:
  "disconnectCalls q (effects (peer_disconnect e p w)) =
     disconnectCalls q (effects w) + (if q = p then 1 else 0)"
  by (simp add: peer_disconnect_def Let_def disconnectNotification_disconnectCalls effects_emit)

lemma heap_emit: "heap (emit x w) = heap w" and peers_emit: "peers (emit x w) = peers w"
  by (simp_all add: emit_def)

lemma peer_disconnect_connectEvents:
  assumes "tracking_invariant w"
  shows "connectEvents q (effects (peer_disconnect e p w)) = connectEvents q (effects w)"
proof -
  have "set (disconnectListeners (heap w p)) \<subseteq> {OnDisconnect p}"
    using assms by (simp add: tracking_invariant_def)
  then have "OnConnect q \<notin> set (disconnectListeners (heap w p))" by auto
  then have "count_list (disconnectListeners (heap w p)) (OnConnect q) = 0"
    by (simp add: count_list_0_iff)
  then show ?thesis
    by (simp add: peer_disconnect_def Let_def disconnectNotification_connectEvents
        effects_emit heap_emit)
qed

lemma peer_disconnect_disconnectEvents:
  assumes "tracking_invariant w"
  shows "disconnectEvents q (effects (peer_disconnect e p w)) =
     disconnectEvents q (effects w) +
       (if q = p \<and> syncDisconnect (heap w p) \<and> connected (heap w p)
        then length (disconnectListeners (heap w p)) else 0)"
proof -
  have ls: "set (disconnectListeners (heap w p)) \<subseteq> {OnDisconnect p}"
    using assms by (simp add: tracking_invariant_def)
  have same: "count_list (disconnectListeners (heap w p)) (OnDisconnect p) =
      length (disconnectListeners (heap w p))"
    by (rule count_list_only [OF ls])
  have other: "count_list (disconnectListeners (heap w p)) (OnDisconnect q) = 0" if "q \<noteq> p"
  proof -
    from ls that have "OnDisconnect q \<notin> set (disconnectListeners (heap w p))" by auto
    then show ?thesis by (simp add: count_list_0_iff)
  qed
  show ?thesis
    by (cases "q = p")
      (simp_all add: peer_disconnect_def Let_def disconnectNotification_disconnectEvents
        effects_emit heap_emit same other)
qed

lemma peer_disconnect_peers:
  assumes "tracking_invariant w" and "p \<in> set (peers w)"
  shows "peers (peer_disconnect e p w) =
     (if syncDisconnect (heap w p) then Set_delete p (peers w) else peers w)"
proof -
  from assms have c: "connected (heap w p)" and ne: "connectListeners (heap w p) \<noteq> []"
    by (simp_all add: tracking_invariant_def)
  have ls: "set (disconnectListeners (heap (emit (DisconnectCall p) w) p)) \<subseteq> {OnDisconnect p}"
    using assms(1) by (simp add: tracking_invariant_def heap_emit)
  have "length (disconnectListeners (heap w p)) = length (connectListeners (heap w p))"
    using assms(1) by (simp add: tracking_invariant_def)
  with ne have "disconnectListeners (heap w p) \<noteq> []" by auto
  then show ?thesis
    using c
    by (simp add: peer_disconnect_def Let_def disconnectNotification_peers [OF ls]
        heap_emit peers_emit)
qed

lemma stop_loop_connectEvents:
  "tracking_invariant w \<Longrightarrow>
   connectEvents q (effects (stop_loop e ps w)) = connectEvents q (effects w)"
  by (induction ps arbitrary: w)
    (simp_all add: tracking_invariant_peer_disconnect peer_disconnect_connectEvents)

lemma stop_connectEvents:
  "tracking_invariant w \<Longrightarrow>
   connectEvents q (effects (snd (stop e w))) = connectEvents q (effects w)"
  by (cases "u_started w") (simp_all add: stop_started stop_stopped stop_loop_connectEvents)

lemma stop_loop_tracked:
  assumes "tracking_invariant w" and "distinct ps" and "set ps \<subseteq> set (peers w)"
  shows "peers (stop_loop e ps w) =
      filter (\<lambda>q. \<not> (q \<in> set ps \<and> syncDisconnect (heap w q))) (peers w) \<and>
    (\<forall>q. disconnectCalls q (effects (stop_loop e ps w)) =
      disconnectCalls q (effects w) + (if q \<in> set ps then 1 else 0)) \<and>
    (\<forall>q. disconnectEvents q (effects (stop_loop e ps w)) =
      disconnectEvents q (effects w) +
        (if q \<in> set ps \<and> syncDisconnect (heap w q)
         then length (disconnectListeners (heap w q)) else 0))"
  using assms
proof (induction ps arbitrary: w)
  case Nil
  then show ?case by simp
next
  case (Cons p ps)
  let ?w' = "peer_disconnect e p w"
  from Cons.prems have p: "p \<in> set (peers w)" and np: "p \<notin> set ps" and d: "distinct ps"
    and sub: "set ps \<subseteq> set (peers w)"
    by auto
  from Cons.prems(1) p have c: "connected (heap w p)"
    by (simp add: tracking_invariant_def)
  have inv': "tracking_invariant ?w'"
    by (rule tracking_invariant_peer_disconnect [OF Cons.prems(1)])
  have pe: "peers ?w' = (if syncDisconnect (heap w p) then Set_delete p (peers w) else peers w)"
    by (rule peer_disconnect_peers [OF Cons.prems(1) p])
  have sub': "set ps \<subseteq> set (peers ?w')"
    using sub np by (auto simp: pe set_Set_delete)
  have hp: "\<And>q. syncDisconnect (heap ?w' q) = syncDisconnect (heap w q)"
    "\<And>q. disconnectListeners (heap ?w' q) = disconnectListeners (heap w q)"
    by (simp_all add: peer_disconnect_heap)
  note IH = Cons.IH [OF inv' d sub', unfolded hp]
  have step: "stop_loop e (p # ps) w = stop_loop e ps ?w'"
    using p by simp
  have a: "peers (stop_loop e (p # ps) w) =
      filter (\<lambda>q. \<not> (q \<in> set (p # ps) \<and> syncDisconnect (heap w q))) (peers w)"
    unfolding step using IH np
    by (auto simp: pe Set_delete_def removeAll_filter_not_eq intro!: filter_cong)
  have b: "\<forall>q. disconnectCalls q (effects (stop_loop e (p # ps) w)) =
      disconnectCalls q (effects w) + (if q \<in> set (p # ps) then 1 else 0)"
    unfolding step using IH np
    by (auto simp: peer_disconnect_disconnectCalls)
  have c': "\<forall>q. disconnectEvents q (effects (stop_loop e (p # ps) w)) =
      disconnectEvents q (effects w) +
        (if q \<in> set (p # ps) \<and> syncDisconnect (heap w q)
         then length (disconnectListeners (heap w q)) else 0)"
    unfolding step using IH np c
    by (auto simp: peer_disconnect_disconnectEvents [OF Cons.prems(1)])
  from a b c' show ?case by blast
qed

lemma stop_loop_deferred:
  "\<forall>q\<in>set ps. q \<in> set (peers w) \<and> \<not> syncDisconnect (heap w q) \<Longrightarrow>
   stop_loop e ps w = w\<lparr>effects := effects w @ map DisconnectCall ps\<rparr>"
  by (induction ps arbitrary: w) (simp_all add: peer_disconnect_def emit_def Let_def)

lemma perform_no_connect:
  assumes inv: "tracking_invariant w"
    and nc: "\<not> connected (heap w p)"
    and x: "x \<noteq> ConnectNotification p"
  shows "\<not> connected (heap (snd (perform e x w)) p) \<and>
    connectEvents p (effects (snd (perform e x w))) = connectEvents p (effects w)"
proof (cases x)
  case (Start options)
  show ?thesis
    using nc
    by (cases "u_started w")
      (simp_all add: Start start_started start_stopped connectEvents_def)
next
  case Stop
  show ?thesis
    using nc stop_heap [of e w p]
    by (auto simp: Stop stop_connectEvents [OF inv])
next
  case (AddPeer q)
  show ?thesis
    using nc
    by (auto simp: AddPeer addPeer_fields connectEvents_def)
next
  case (ConnectNotification q)
  with x have qp: "q \<noteq> p" by simp
  have "set (connectListeners (heap w q)) \<subseteq> {OnConnect q}"
    using inv by (simp add: tracking_invariant_def)
  with qp have "OnConnect p \<notin> set (connectListeners (heap w q))" by auto
  then have "count_list (connectListeners (heap w q)) (OnConnect p) = 0"
    by (simp add: count_list_0_iff)
  then show ?thesis
    using nc qp
    by (simp add: ConnectNotification connectNotification_heap connectNotification_connectEvents)
next
  case (DisconnectNotification q)
  have "set (disconnectListeners (heap w q)) \<subseteq> {OnDisconnect q}"
    using inv by (simp add: tracking_invariant_def)
  then have "OnConnect p \<notin> set (disconnectListeners (heap w q))" by auto
  then have "count_list (disconnectListeners (heap w q)) (OnConnect p) = 0"
    by (simp add: count_list_0_iff)
  then show ?thesis
    using nc
    by (simp add: DisconnectNotification disconnectNotification_heap
        disconnectNotification_connectEvents)
qed

lemma run_no_connect:
  "tracking_invariant w \<Longrightarrow> \<not> connected (heap w p) \<Longrightarrow> ConnectNotification p \<notin> set ops \<Longrightarrow>
   \<not> connected (heap (run e ops w) p) \<and>
   connectEvents p (effects (run e ops w)) = connectEvents p (effects w)"
proof (induction ops arbitrary: w)
  case Nil
  then show ?case by simp
next
  case (Cons x xs)
  from Cons.prems have x: "x \<noteq> ConnectNotification p" and xs: "ConnectNotification p \<notin> set xs"
    by auto
  note step = perform_no_connect [OF Cons.prems(1) Cons.prems(2) x, of e]
  have inv': "tracking_invariant (snd (perform e x w))"
    by (rule tracking_invariant_perform [OF Cons.prems(1)])
  from Cons.IH [OF inv' _ xs] step show ?case by simp
qed

lemma call_listener_started:
  "call_listener e l (w\<lparr>u_started := b\<rparr>) = (call_listener e l w)\<lparr>u_started := b\<rparr>"
  by (cases l) (simp_all add: onConnect_def onDisconnect_def debug_call_def emit_def Let_def)

lemma fold_call_listener_started:
  "fold (call_listener e) ls (w\<lparr>u_started := b\<rparr>) = (fold (call_listener e) ls w)\<lparr>u_started := b\<rparr>"
  by (induction ls arbitrary: w) (simp_all add: call_listener_started)

lemma addPeer_started:
  "addPeer e p (w\<lparr>u_started := b\<rparr>) = (addPeer e p w)\<lparr>u_started := b\<rparr>"
  by (simp add: addPeer_def peer_onConnect_def peer_onDisconnect_def onConnect_def
      debug_call_def emit_def Let_def)

lemma connectNotification_started:
  "connectNotification e p (w\<lparr>u_started := b\<rparr>) = (connectNotification e p w)\<lparr>u_started := b\<rparr>"
proof -
  have h: "heap (w\<lparr>u_started := b\<rparr>) = heap w"
    by simp
  have comm: "\<And>H. (w\<lparr>u_started := b\<rparr>)\<lparr>heap := H\<rparr> = (w\<lparr>heap := H\<rparr>)\<lparr>u_started := b\<rparr>"
    by simp
  show ?thesis
    by (simp only: connectNotification_def h comm fold_call_listener_started)
qed

lemma disconnectNotification_started:
  "disconnectNotification e p (w\<lparr>u_started := b\<rparr>) = (disconnectNotification e p w)\<lparr>u_started := b\<rparr>"
proof -
  have h: "heap (w\<lparr>u_started := b\<rparr>) = heap w"
    by simp
  have comm: "\<And>H. (w\<lparr>u_started := b\<rparr>)\<lparr>heap := H\<rparr> = (w\<lparr>heap := H\<rparr>)\<lparr>u_started := b\<rparr>"
    by simp
  show ?thesis
    by (simp only: disconnectNotification_def h comm fold_call_listener_started)
qed

lemma fold_last_OnConnect:
  "p \<in> set (peers (fold (call_listener e) (ls @ [OnConnect p]) w))"
  by (simp add: onConnect_fields set_Set_add)

lemma fold_last_OnDisconnect:
  "p \<notin> set (peers (fold (call_listener e) (ls @ [OnDisconnect p]) w))"
  by (simp add: onDisconnect_fields set_Set_delete)

section \<open>Claims\<close>

text \<open>
  C1, as the code has it. Passing the same peer to \<open>addPeer\<close> twice never puts it into
  the tracked set twice. But every call subscribes a listener pair of its own and runs the
  connect routine of its own: for a peer that is already connected the two calls emit two
  connect events, and every later connect or disconnect notification of the peer emits
  one transport-level event per registration, so two at least.
\<close>

theorem C1_double_registration:
  assumes "w = run encodeId pre (new_AbstractTransport name (fresh_heap ident conn sync))"
  shows
    "(let w2 = addPeer encodeId p (addPeer encodeId p w)
      in distinct (peers w2) \<and> count_list (peers w2) p \<le> 1 \<and>
         (connected (heap w p) \<longrightarrow>
            p \<in> set (peers w2) \<and>
            connectEvents p (effects w2) = connectEvents p (effects w) + 2) \<and>
         (\<not> connected (heap w p) \<longrightarrow> peers w2 = peers w \<and> effects w2 = effects w) \<and>
         distinct (peers (connectNotification encodeId p w2)) \<and>
         count_list (peers (connectNotification encodeId p w2)) p = 1 \<and>
         connectEvents p (effects (connectNotification encodeId p w2)) =
           connectEvents p (effects w2) + (count_list pre (AddPeer p) + 2) \<and>
         distinct (peers (disconnectNotification encodeId p w2)) \<and>
         count_list (peers (disconnectNotification encodeId p w2)) p = 0 \<and>
         disconnectEvents p (effects (disconnectNotification encodeId p w2)) =
           disconnectEvents p (effects w2) + (count_list pre (AddPeer p) + 2))"
proof -
  let ?w0 = "new_AbstractTransport name (fresh_heap ident conn sync)"
  let ?w2 = "addPeer encodeId p (addPeer encodeId p w)"
  have w2: "?w2 = run encodeId (pre @ [AddPeer p, AddPeer p]) ?w0"
    by (simp add: run_append assms)
  have inv: "tracking_invariant ?w2"
    unfolding w2 by (rule reachable_invariant)
  have d: "distinct (peers ?w2)"
    using inv by (simp add: tracking_invariant_def)
  have len: "length (connectListeners (heap ?w2 p)) = count_list pre (AddPeer p) + 2"
    unfolding w2 by (simp add: reachable_connectListeners)
  have cl: "set (connectListeners (heap ?w2 p)) \<subseteq> {OnConnect p}"
    and dl: "set (disconnectListeners (heap ?w2 p)) \<subseteq> {OnDisconnect p}"
    and dlen: "length (disconnectListeners (heap ?w2 p)) = length (connectListeners (heap ?w2 p))"
    using inv by (simp_all add: tracking_invariant_def)
  have a: "connected (heap w p) \<longrightarrow>
      p \<in> set (peers ?w2) \<and> connectEvents p (effects ?w2) = connectEvents p (effects w) + 2"
    by (simp add: addPeer_fields set_Set_add connectEvents_def)
  have b: "\<not> connected (heap w p) \<longrightarrow> peers ?w2 = peers w \<and> effects ?w2 = effects w"
    by (simp add: addPeer_fields)
  have invc: "tracking_invariant (connectNotification encodeId p ?w2)"
    by (rule tracking_invariant_connectNotification [OF inv])
  have invd: "tracking_invariant (disconnectNotification encodeId p ?w2)"
    by (rule tracking_invariant_disconnectNotification [OF inv])
  have dc: "distinct (peers (connectNotification encodeId p ?w2))"
    using invc by (simp add: tracking_invariant_def)
  have dd: "distinct (peers (disconnectNotification encodeId p ?w2))"
    using invd by (simp add: tracking_invariant_def)
  have ne: "connectListeners (heap ?w2 p) \<noteq> []" "disconnectListeners (heap ?w2 p) \<noteq> []"
    using len dlen by auto
  have mc: "p \<in> set (peers (connectNotification encodeId p ?w2))"
    by (simp add: connectNotification_peers [OF cl] ne set_Set_add)
  have md: "p \<notin> set (peers (disconnectNotification encodeId p ?w2))"
    by (simp add: disconnectNotification_peers [OF dl] ne set_Set_delete)
  have ec: "connectEvents p (effects (connectNotification encodeId p ?w2)) =
      connectEvents p (effects ?w2) + (count_list pre (AddPeer p) + 2)"
    by (simp only: connectNotification_connectEvents count_list_only [OF cl] len)
  have ed: "disconnectEvents p (effects (disconnectNotification encodeId p ?w2)) =
      disconnectEvents p (effects ?w2) + (count_list pre (AddPeer p) + 2)"
    by (simp only: disconnectNotification_disconnectEvents count_list_only [OF dl] dlen len)
  from d a b dc dd mc md ec ed show ?thesis
    unfolding Let_def by (simp add: count_list_distinct)
qed

theorem C1_counterexample:
  "connectEvents 1 (effects example_transport) = 0 \<and>
   connectEvents 1 (effects (addPeer example_encodeId 1 (addPeer example_encodeId 1 example_transport)))
     = 2 \<and>
   disconnectEvents 1 (effects (addPeer example_encodeId 1 (addPeer example_encodeId 1 example_transport)))
     = 0 \<and>
   disconnectEvents 1 (effects (disconnectNotification example_encodeId 1
       (addPeer example_encodeId 1 (addPeer example_encodeId 1 example_transport)))) = 2"
  by (simp add: eval_defs)

theorem C1_witness:
  "connected (heap (run example_encodeId [Start example_options] example_transport) 1) \<and>
   peers (addPeer example_encodeId 1 (addPeer example_encodeId 1
       (run example_encodeId [Start example_options] example_transport))) = [1] \<and>
   connectEvents 1 (effects (addPeer example_encodeId 1 (addPeer example_encodeId 1
       (run example_encodeId [Start example_options] example_transport)))) =
     connectEvents 1 (effects (run example_encodeId [Start example_options] example_transport)) + 2 \<and>
   \<not> connected (heap (run example_encodeId [Start example_options] example_transport) 2) \<and>
   effects (addPeer example_encodeId 2 (addPeer example_encodeId 2
       (run example_encodeId [Start example_options] example_transport))) =
     effects (run example_encodeId [Start example_options] example_transport) \<and>
   connectEvents 2 (effects (connectNotification example_encodeId 2
       (addPeer example_encodeId 2 (addPeer example_encodeId 2
         (run example_encodeId [Start example_options] example_transport))))) = 2"
proof -
  let ?pre = "[Start example_options] :: nat operation list"
  let ?w = "run example_encodeId ?pre example_transport"
  have a: "?w = run example_encodeId ?pre
      (new_AbstractTransport ''t'' (fresh_heap (\<lambda>p. [of_nat p]) (\<lambda>p. p = 1) (\<lambda>p. p = 1)))"
    by (simp only: example_transport_def example_heap_def)
  have c1: "connected (heap ?w 1)" by (simp add: eval_defs)
  have c2: "\<not> connected (heap ?w 2)" by (simp add: eval_defs)
  have v: "peers (addPeer example_encodeId 1 (addPeer example_encodeId 1 ?w)) = [1]"
    "connectEvents 2 (effects (connectNotification example_encodeId 2
       (addPeer example_encodeId 2 (addPeer example_encodeId 2 ?w)))) = 2"
    by (simp_all add: eval_defs)
  note inst = C1_double_registration [OF a, unfolded Let_def]
  from inst [of 1] c1
  have p1: "connectEvents 1 (effects (addPeer example_encodeId 1 (addPeer example_encodeId 1 ?w))) =
     connectEvents 1 (effects ?w) + 2"
    by blast
  from inst [of 2] c2
  have p2: "effects (addPeer example_encodeId 2 (addPeer example_encodeId 2 ?w)) = effects ?w"
    by blast
  from c1 c2 v p1 p2 show ?thesis by blast
qed

text \<open>
  C2, as the code has it. In every state that a history reaches from a freshly
  constructed transport, a peer is in the tracked set exactly when it is connected and
  has been passed to \<open>addPeer\<close>, at whatever moment: \<open>addPeer\<close> and the listeners never
  read the started flag. The statement with ``added after the transport was started''
  does not hold: a connected peer added to a transport that was never started is tracked.
\<close>

theorem C2_tracked_iff_connected_and_added:
  "p \<in> set (peers (run encodeId ops (new_AbstractTransport name (fresh_heap ident conn sync)))) \<longleftrightarrow>
     connected (heap (run encodeId ops (new_AbstractTransport name (fresh_heap ident conn sync))) p) \<and>
     AddPeer p \<in> set ops"
  by (rule tracked_iff)

theorem C2_counterexample:
  "1 \<in> set (peers (run example_encodeId [AddPeer 1] example_transport)) \<and>
   connected (heap (run example_encodeId [AddPeer 1] example_transport) 1) \<and>
   \<not> started (run example_encodeId [AddPeer 1] example_transport) \<and>
   \<not> addedAfterStart False 1 [AddPeer (1::nat)]"
  by (simp add: eval_defs)

theorem C2_witness:
  "2 \<in> set (peers (run example_encodeId
       [AddPeer 1, AddPeer 2, DisconnectNotification 1, ConnectNotification 2, ConnectNotification 3]
       example_transport)) \<and>
   1 \<notin> set (peers (run example_encodeId
       [AddPeer 1, AddPeer 2, DisconnectNotification 1, ConnectNotification 2, ConnectNotification 3]
       example_transport)) \<and>
   3 \<notin> set (peers (run example_encodeId
       [AddPeer 1, AddPeer 2, DisconnectNotification 1, ConnectNotification 2, ConnectNotification 3]
       example_transport))"
proof -
  let ?ops = "[AddPeer 1, AddPeer 2, DisconnectNotification 1, ConnectNotification 2,
      ConnectNotification 3] :: nat operation list"
  note inst = C2_tracked_iff_connected_and_added [where encodeId = example_encodeId and ops = ?ops
      and name = "''t''" and ident = "\<lambda>p. [of_nat p]" and conn = "\<lambda>p. p = 1" and sync = "\<lambda>p. p = 1"]
  have c: "connected (heap (run example_encodeId ?ops example_transport) 2)"
    "\<not> connected (heap (run example_encodeId ?ops example_transport) 1)"
    by (simp_all add: eval_defs)
  show ?thesis
    using inst [of 1] inst [of 2] inst [of 3] c
    unfolding example_transport_def example_heap_def
    by simp
qed

text \<open>
  C3, as the code has it. Take a tracked peer that was passed to \<open>addPeer\<close> once. Its
  disconnect notification removes it, and only it, from the tracked set and emits exactly
  one transport-level disconnect event (after one debug line). A second disconnect
  notification, with no connect in between, raises nothing and leaves the set as it is,
  but it emits a second transport-level disconnect event: the listener deletes and emits
  without looking at whether the peer was tracked.
\<close>

theorem C3_disconnect_notification:
  assumes "w = run encodeId pre (new_AbstractTransport name (fresh_heap ident conn sync))"
    and "count_list pre (AddPeer p) = 1"
    and "p \<in> set (peers w)"
  shows "p \<notin> set (peers (disconnectNotification encodeId p w)) \<and>
    set (peers (disconnectNotification encodeId p w)) = set (peers w) - {p} \<and>
    effects (disconnectNotification encodeId p w) =
      effects w @ [DebugLog (debug w)
                     [''Peer with id'', encodeId (peer_id (heap w p)), ''is no longer available''],
                   PeerDisconnectEmit p] \<and>
    disconnectEvents p (effects (disconnectNotification encodeId p w)) =
      disconnectEvents p (effects w) + 1 \<and>
    peers (disconnectNotification encodeId p (disconnectNotification encodeId p w)) =
      peers (disconnectNotification encodeId p w) \<and>
    effects (disconnectNotification encodeId p (disconnectNotification encodeId p w)) =
      effects (disconnectNotification encodeId p w) @
        [DebugLog (debug w)
           [''Peer with id'', encodeId (peer_id (heap w p)), ''is no longer available''],
         PeerDisconnectEmit p] \<and>
    disconnectEvents p (effects (disconnectNotification encodeId p (disconnectNotification encodeId p w))) =
      disconnectEvents p (effects (disconnectNotification encodeId p w)) + 1"
proof -
  have inv: "tracking_invariant w"
    unfolding assms(1) by (rule reachable_invariant)
  have "length (connectListeners (heap w p)) = 1"
    unfolding assms(1) by (simp add: reachable_connectListeners assms(2))
  with inv have "set (disconnectListeners (heap w p)) \<subseteq> {OnDisconnect p}"
    and "length (disconnectListeners (heap w p)) = Suc 0"
    by (simp_all add: tracking_invariant_def)
  then have dl: "disconnectListeners (heap w p) = [OnDisconnect p]"
    by (rule only_one)
  let ?d = "disconnectNotification encodeId p w"
  have d1: "peers ?d = Set_delete p (peers w)"
    "effects ?d = effects w @ [DebugLog (debug w)
        [''Peer with id'', encodeId (peer_id (heap w p)), ''is no longer available''],
        PeerDisconnectEmit p]"
    "disconnectListeners (heap ?d p) = [OnDisconnect p]"
    "peer_id (heap ?d p) = peer_id (heap w p)"
    "debug ?d = debug w"
    by (simp_all add: disconnectNotification_def dl onDisconnect_fields onDisconnect_def
        debug_call_def emit_def Let_def)
  have d2: "peers (disconnectNotification encodeId p ?d) = Set_delete p (peers ?d)"
    "effects (disconnectNotification encodeId p ?d) = effects ?d @ [DebugLog (debug ?d)
        [''Peer with id'', encodeId (peer_id (heap ?d p)), ''is no longer available''],
        PeerDisconnectEmit p]"
    by (simp_all add: disconnectNotification_def [of encodeId p ?d] d1(3) onDisconnect_fields)
  show ?thesis
    unfolding d2 d1
    by (simp add: set_Set_delete Set_delete_idem disconnectEvents_append)
      (simp add: disconnectEvents_def)
qed

theorem C3_counterexample:
  "1 \<in> set (peers (run example_encodeId [AddPeer 1] example_transport)) \<and>
   disconnectEvents 1 (effects (run example_encodeId [AddPeer 1, DisconnectNotification 1]
       example_transport)) = 1 \<and>
   disconnectEvents 1 (effects (run example_encodeId
       [AddPeer 1, DisconnectNotification 1, DisconnectNotification 1] example_transport)) = 2"
  by (simp add: eval_defs)

theorem C3_witness:
  "count_list [AddPeer (1::nat)] (AddPeer 1) = 1 \<and>
   1 \<in> set (peers (run example_encodeId [AddPeer 1] example_transport)) \<and>
   1 \<notin> set (peers (disconnectNotification example_encodeId 1
       (run example_encodeId [AddPeer 1] example_transport))) \<and>
   disconnectEvents 1 (effects (disconnectNotification example_encodeId 1
       (run example_encodeId [AddPeer 1] example_transport))) =
     disconnectEvents 1 (effects (run example_encodeId [AddPeer 1] example_transport)) + 1 \<and>
   disconnectEvents 1 (effects (disconnectNotification example_encodeId 1
       (disconnectNotification example_encodeId 1
         (run example_encodeId [AddPeer 1] example_transport)))) =
     disconnectEvents 1 (effects (disconnectNotification example_encodeId 1
       (run example_encodeId [AddPeer 1] example_transport))) + 1"
proof -
  let ?w = "run example_encodeId [AddPeer 1] example_transport"
  have a: "?w = run example_encodeId [AddPeer 1]
      (new_AbstractTransport ''t'' (fresh_heap (\<lambda>p. [of_nat p]) (\<lambda>p. p = 1) (\<lambda>p. p = 1)))"
    by (simp only: example_transport_def example_heap_def)
  have b: "count_list [AddPeer (1::nat)] (AddPeer 1) = 1" by simp
  have c: "1 \<in> set (peers ?w)" by (simp add: eval_defs)
  from C3_disconnect_notification [OF a b c] b c show ?thesis by blast
qed

text \<open>
  C4. In every history that starts from a freshly constructed transport, a call of
  \<open>start\<close> returns \<open>true\<close> exactly when the transport is Stopped at that moment and a call
  of \<open>stop\<close> returns \<open>true\<close> exactly when it is Started; after \<open>start\<close> the transport is
  Started and after \<open>stop\<close> it is Stopped, so it can be started and stopped again and
  again. The histories may have calls of \<open>addPeer\<close> and notifications in between.
\<close>

theorem C4_start_stop_results:
  "results encodeId ops (new_AbstractTransport name h) = spec_results Stopped ops \<and>
   fst (start encodeId options w) = (lifecycle_of w = Stopped) \<and>
   lifecycle_of (snd (start encodeId options w)) = Started \<and>
   fst (stop encodeId w) = (lifecycle_of w = Started) \<and>
   lifecycle_of (snd (stop encodeId w)) = Stopped"
proof -
  have "lifecycle_of (new_AbstractTransport name h) = Stopped"
    by (simp add: lifecycle_of_def new_AbstractTransport_def)
  then have "results encodeId ops (new_AbstractTransport name h) = spec_results Stopped ops"
    by (simp add: results_spec)
  moreover have "fst (start encodeId options w) = (lifecycle_of w = Stopped) \<and>
      lifecycle_of (snd (start encodeId options w)) = Started"
    by (cases "u_started w") (simp_all add: lifecycle_of_def start_started start_stopped)
  moreover have "fst (stop encodeId w) = (lifecycle_of w = Started) \<and> lifecycle_of (snd (stop encodeId w)) = Stopped"
    by (cases "u_started w") (simp_all add: lifecycle_of_def stop_started stop_stopped)
  ultimately show ?thesis by simp
qed

theorem C4_witness:
  "results example_encodeId
     [Start example_options, Start other_options, Stop, Stop, Start other_options, Stop]
     example_transport
   = [Some True, Some False, Some True, Some False, Some True, Some True]"
proof -
  let ?ops = "[Start example_options, Start other_options, Stop, Stop, Start other_options, Stop]
              :: nat operation list"
  have "results example_encodeId ?ops (new_AbstractTransport ''t'' example_heap)
        = spec_results Stopped ?ops"
    using C4_start_stop_results [where encodeId = example_encodeId and name = "''t''"
        and h = example_heap and w = example_transport and options = example_options
        and ops = ?ops]
    by (rule conjunct1)
  then show ?thesis
    unfolding example_transport_def by simp
qed

text \<open>
  C5, as the code has it. A peer that is connected when passed to \<open>addPeer\<close> is tracked
  when \<open>addPeer\<close> returns, and exactly one connect event, carrying that peer, has been
  emitted by then. A peer that is disconnected when passed to \<open>addPeer\<close> changes neither
  the tracked set nor the trace; whatever happens next, as long as its own connect
  notification is not delivered, it stays untracked and no connect event carries it. At
  that notification the set gains the peer and one connect event per registration of the
  peer is emitted: exactly one, right after one debug line, when the peer has been passed
  to \<open>addPeer\<close> once.
\<close>

theorem C5_addPeer_connect_paths:
  assumes "w = run encodeId pre (new_AbstractTransport name (fresh_heap ident conn sync))"
  shows
    "(connected (heap w p) \<longrightarrow>
        p \<in> set (peers (addPeer encodeId p w)) \<and>
        effects (addPeer encodeId p w) =
          effects w @ [DebugLog (debug w)
                         [''Peer with id'', encodeId (peer_id (heap w p)), ''is now available''],
                       PeerConnectEmit p]) \<and>
     (\<not> connected (heap w p) \<and> ConnectNotification p \<notin> set ops \<longrightarrow>
        (let w1 = addPeer encodeId p w;
             w2 = run encodeId ops w1;
             w3 = connectNotification encodeId p w2
         in peers w1 = peers w \<and> effects w1 = effects w \<and>
            p \<notin> set (peers w2) \<and>
            connectEvents p (effects w2) = connectEvents p (effects w) \<and>
            set (peers w3) = insert p (set (peers w2)) \<and>
            connectEvents p (effects w3) =
              connectEvents p (effects w2) + count_list (pre @ AddPeer p # ops) (AddPeer p) \<and>
            (AddPeer p \<notin> set pre \<and> AddPeer p \<notin> set ops \<longrightarrow>
               effects w3 =
                 effects w2 @ [DebugLog (debug w2)
                                [''Peer with id'', encodeId (peer_id (heap w2 p)), ''is now available''],
                               PeerConnectEmit p])))"
proof -
  let ?w0 = "new_AbstractTransport name (fresh_heap ident conn sync)"
  let ?w1 = "addPeer encodeId p w"
  let ?w2 = "run encodeId ops ?w1"
  let ?w3 = "connectNotification encodeId p ?w2"
  have a: "connected (heap w p) \<longrightarrow>
        p \<in> set (peers ?w1) \<and>
        effects ?w1 =
          effects w @ [DebugLog (debug w)
                         [''Peer with id'', encodeId (peer_id (heap w p)), ''is now available''],
                       PeerConnectEmit p]"
    by (simp add: addPeer_fields set_Set_add)
  have w1: "?w1 = run encodeId (pre @ [AddPeer p]) ?w0"
    by (simp add: run_append assms)
  have w2: "?w2 = run encodeId (pre @ AddPeer p # ops) ?w0"
    by (simp add: run_append assms)
  have inv1: "tracking_invariant ?w1"
    unfolding w1 by (rule reachable_invariant)
  have inv2: "tracking_invariant ?w2"
    unfolding w2 by (rule reachable_invariant)
  have len: "length (connectListeners (heap ?w2 p)) = count_list (pre @ AddPeer p # ops) (AddPeer p)"
    unfolding w2 by (rule reachable_connectListeners)
  have ls: "set (connectListeners (heap ?w2 p)) \<subseteq> {OnConnect p}"
    using inv2 by (simp add: tracking_invariant_def)
  have ne: "connectListeners (heap ?w2 p) \<noteq> []"
    using len by auto
  have p3: "set (peers ?w3) = insert p (set (peers ?w2))"
    by (simp add: connectNotification_peers [OF ls] ne set_Set_add)
  have e3: "connectEvents p (effects ?w3) =
      connectEvents p (effects ?w2) + count_list (pre @ AddPeer p # ops) (AddPeer p)"
    by (simp only: connectNotification_connectEvents count_list_only [OF ls] len)
  have once: "effects ?w3 =
      effects ?w2 @ [DebugLog (debug ?w2)
          [''Peer with id'', encodeId (peer_id (heap ?w2 p)), ''is now available''],
          PeerConnectEmit p]"
    if "AddPeer p \<notin> set pre \<and> AddPeer p \<notin> set ops"
  proof -
    from that have "count_list (pre @ AddPeer p # ops) (AddPeer p) = Suc 0"
      by (simp add: count_list_0_iff)
    with len have "length (connectListeners (heap ?w2 p)) = Suc 0" by simp
    with ls have "connectListeners (heap ?w2 p) = [OnConnect p]" by (rule only_one)
    then show ?thesis
      by (simp add: connectNotification_def onConnect_fields)
  qed
  have b: "peers ?w1 = peers w \<and> effects ?w1 = effects w \<and>
      p \<notin> set (peers ?w2) \<and> connectEvents p (effects ?w2) = connectEvents p (effects w)"
    if "\<not> connected (heap w p)" and "ConnectNotification p \<notin> set ops"
  proof -
    have f: "peers ?w1 = peers w" "effects ?w1 = effects w" "\<not> connected (heap ?w1 p)"
      using that(1) by (simp_all add: addPeer_fields)
    from run_no_connect [OF inv1 f(3) that(2), of encodeId]
    have n: "\<not> connected (heap ?w2 p)"
      and c: "connectEvents p (effects ?w2) = connectEvents p (effects ?w1)"
      by simp_all
    from inv2 n have "p \<notin> set (peers ?w2)"
      by (simp add: tracking_invariant_def)
    with f c show ?thesis by simp
  qed
  from a b p3 e3 once show ?thesis
    unfolding Let_def by blast
qed

theorem C5_counterexample:
  "\<not> connected (heap (run example_encodeId [AddPeer 2] example_transport) 2) \<and>
   connectEvents 2 (effects (run example_encodeId [AddPeer 2, AddPeer 2] example_transport)) = 0 \<and>
   connectEvents 2 (effects (run example_encodeId [AddPeer 2, AddPeer 2, ConnectNotification 2]
       example_transport)) = 2"
  by (simp add: eval_defs)

theorem C5_witness:
  "connected (heap (run example_encodeId [Start example_options] example_transport) 1) \<and>
   1 \<in> set (peers (addPeer example_encodeId 1
       (run example_encodeId [Start example_options] example_transport))) \<and>
   connectEvents 1 (effects (addPeer example_encodeId 1
       (run example_encodeId [Start example_options] example_transport))) = 1 \<and>
   \<not> connected (heap (run example_encodeId [Start example_options] example_transport) 2) \<and>
   ConnectNotification (2::nat) \<notin> set [Stop, AddPeer 1] \<and>
   AddPeer (2::nat) \<notin> set [Start example_options] \<and>
   AddPeer (2::nat) \<notin> set [Stop, AddPeer 1] \<and>
   2 \<notin> set (peers (run example_encodeId [Stop, AddPeer 1]
       (addPeer example_encodeId 2
         (run example_encodeId [Start example_options] example_transport)))) \<and>
   connectEvents 2 (effects (run example_encodeId [Stop, AddPeer 1]
       (addPeer example_encodeId 2
         (run example_encodeId [Start example_options] example_transport)))) =
     connectEvents 2 (effects (run example_encodeId [Start example_options] example_transport)) \<and>
   set (peers (connectNotification example_encodeId 2
       (run example_encodeId [Stop, AddPeer 1]
         (addPeer example_encodeId 2
           (run example_encodeId [Start example_options] example_transport))))) =
     insert 2 (set (peers (run example_encodeId [Stop, AddPeer 1]
       (addPeer example_encodeId 2
         (run example_encodeId [Start example_options] example_transport))))) \<and>
   connectEvents 2 (effects (connectNotification example_encodeId 2
       (run example_encodeId [Stop, AddPeer 1]
         (addPeer example_encodeId 2
           (run example_encodeId [Start example_options] example_transport))))) = 1"
proof -
  let ?pre = "[Start example_options] :: nat operation list"
  let ?ops = "[Stop, AddPeer 1] :: nat operation list"
  let ?w = "run example_encodeId ?pre example_transport"
  have a: "?w = run example_encodeId ?pre
      (new_AbstractTransport ''t'' (fresh_heap (\<lambda>p. [of_nat p]) (\<lambda>p. p = 1) (\<lambda>p. p = 1)))"
    by (simp only: example_transport_def example_heap_def)
  have c1: "connected (heap ?w 1)" by (simp add: eval_defs)
  have c2: "\<not> connected (heap ?w 2)" by (simp add: eval_defs)
  have n: "ConnectNotification 2 \<notin> set ?ops" "AddPeer 2 \<notin> set ?pre" "AddPeer 2 \<notin> set ?ops"
    by simp_all
  have v: "connectEvents 1 (effects (addPeer example_encodeId 1 ?w)) = 1"
    "connectEvents 2 (effects (connectNotification example_encodeId 2
       (run example_encodeId ?ops (addPeer example_encodeId 2 ?w)))) = 1"
    by (simp_all add: eval_defs)
  note inst = C5_addPeer_connect_paths [OF a, unfolded Let_def]
  from inst [of 1 ?ops] c1
  have p1: "1 \<in> set (peers (addPeer example_encodeId 1 ?w))"
    by blast
  from inst [of 2 ?ops] c2 n
  have p2: "2 \<notin> set (peers (run example_encodeId ?ops (addPeer example_encodeId 2 ?w)))"
    "connectEvents 2 (effects (run example_encodeId ?ops (addPeer example_encodeId 2 ?w))) =
       connectEvents 2 (effects ?w)"
    "set (peers (connectNotification example_encodeId 2
        (run example_encodeId ?ops (addPeer example_encodeId 2 ?w)))) =
     insert 2 (set (peers (run example_encodeId ?ops (addPeer example_encodeId 2 ?w))))"
    by blast+
  from c1 c2 n v p1 p2 show ?thesis by blast
qed

text \<open>
  C6. Take a started transport in a state that a history reaches from a freshly
  constructed one. \<open>stop\<close> returns \<open>true\<close> and clears the started flag, and it calls
  \<open>disconnect()\<close> exactly once on every peer that is tracked when it is called, and on no
  other peer. \<open>stop\<close> has no statement that deletes from the tracked set: afterwards the
  set holds, in the same order, the peers whose disconnect notification has not been
  delivered yet, and each peer that left the set during \<open>stop\<close> left it through its own
  notification, with one disconnect event per registration of it. If no tracked peer
  notifies inside \<open>disconnect()\<close>, the set is as before and the only changes are the flag
  and the calls recorded. A second \<open>stop\<close> right after returns \<open>false\<close> and changes
  nothing.
\<close>

theorem C6_stop_requests_disconnects:
  assumes "w = run encodeId pre (new_AbstractTransport name (fresh_heap ident conn sync))"
    and "started w"
  shows
    "fst (stop encodeId w) = True \<and>
     \<not> started (snd (stop encodeId w)) \<and>
     disconnectCalls p (effects (snd (stop encodeId w))) =
       disconnectCalls p (effects w) + (if p \<in> set (peers w) then 1 else 0) \<and>
     peers (snd (stop encodeId w)) = filter (\<lambda>q. \<not> syncDisconnect (heap w q)) (peers w) \<and>
     disconnectEvents p (effects (snd (stop encodeId w))) =
       disconnectEvents p (effects w) +
         (if p \<in> set (peers w) \<and> syncDisconnect (heap w p) then count_list pre (AddPeer p) else 0) \<and>
     (p \<in> set (peers w) \<and> p \<notin> set (peers (snd (stop encodeId w))) \<longrightarrow>
        disconnectEvents p (effects w) < disconnectEvents p (effects (snd (stop encodeId w)))) \<and>
     (filter (\<lambda>q. syncDisconnect (heap w q)) (peers w) = [] \<longrightarrow>
        snd (stop encodeId w) =
          w\<lparr>effects := effects w @ map DisconnectCall (peers w), u_started := False\<rparr>) \<and>
     stop encodeId (snd (stop encodeId w)) = (False, snd (stop encodeId w))"
proof -
  have inv: "tracking_invariant w"
    unfolding assms(1) by (rule reachable_invariant)
  from assms(2) have s: "u_started w" by (simp add: started_def)
  from inv have d: "distinct (peers w)" by (simp add: tracking_invariant_def)
  note loop = stop_loop_tracked [OF inv d subset_refl, of encodeId]
  have lenc: "length (connectListeners (heap w p)) = count_list pre (AddPeer p)"
    unfolding assms(1) by (rule reachable_connectListeners)
  have len: "length (disconnectListeners (heap w p)) = count_list pre (AddPeer p)"
    using inv lenc by (simp add: tracking_invariant_def)
  have reg: "0 < count_list pre (AddPeer p)" if "p \<in> set (peers w)"
  proof -
    from inv that have "connectListeners (heap w p) \<noteq> []"
      by (simp add: tracking_invariant_def)
    then have "0 < length (connectListeners (heap w p))" by simp
    then show ?thesis by (simp only: lenc)
  qed
  have a: "fst (stop encodeId w) = True" "\<not> started (snd (stop encodeId w))"
    using s by (simp_all add: stop_flag started_def)
  have b: "disconnectCalls p (effects (snd (stop encodeId w))) =
       disconnectCalls p (effects w) + (if p \<in> set (peers w) then 1 else 0)"
    using loop by (simp add: stop_started [OF s])
  have c: "peers (snd (stop encodeId w)) = filter (\<lambda>q. \<not> syncDisconnect (heap w q)) (peers w)"
    using loop by (auto simp: stop_started [OF s] intro!: filter_cong)
  have e: "disconnectEvents p (effects (snd (stop encodeId w))) =
       disconnectEvents p (effects w) +
         (if p \<in> set (peers w) \<and> syncDisconnect (heap w p) then count_list pre (AddPeer p) else 0)"
    using loop len by (simp add: stop_started [OF s])
  have f: "disconnectEvents p (effects w) < disconnectEvents p (effects (snd (stop encodeId w)))"
    if "p \<in> set (peers w) \<and> p \<notin> set (peers (snd (stop encodeId w)))"
    using that reg unfolding c e by auto
  have g: "snd (stop encodeId w) =
      w\<lparr>effects := effects w @ map DisconnectCall (peers w), u_started := False\<rparr>"
    if "filter (\<lambda>q. syncDisconnect (heap w q)) (peers w) = []"
  proof -
    from that have "\<forall>q\<in>set (peers w). q \<in> set (peers w) \<and> \<not> syncDisconnect (heap w q)"
      by (simp add: filter_empty_conv)
    from stop_loop_deferred [OF this, of encodeId] show ?thesis
      by (simp add: stop_started [OF s])
  qed
  have h: "stop encodeId (snd (stop encodeId w)) = (False, snd (stop encodeId w))"
    by (rule stop_stopped) (simp add: stop_flag)
  from a b c e f g h show ?thesis by blast
qed

theorem C6_witness:
  "started (run example_encodeId [Start example_options, AddPeer 1, AddPeer 2, ConnectNotification 2]
       example_transport) \<and>
   peers (run example_encodeId [Start example_options, AddPeer 1, AddPeer 2, ConnectNotification 2]
       example_transport) = [1, 2] \<and>
   fst (stop example_encodeId (run example_encodeId
       [Start example_options, AddPeer 1, AddPeer 2, ConnectNotification 2] example_transport)) = True \<and>
   peers (snd (stop example_encodeId (run example_encodeId
       [Start example_options, AddPeer 1, AddPeer 2, ConnectNotification 2] example_transport))) = [2] \<and>
   disconnectCalls 1 (effects (snd (stop example_encodeId (run example_encodeId
       [Start example_options, AddPeer 1, AddPeer 2, ConnectNotification 2] example_transport)))) = 1 \<and>
   disconnectCalls 2 (effects (snd (stop example_encodeId (run example_encodeId
       [Start example_options, AddPeer 1, AddPeer 2, ConnectNotification 2] example_transport)))) = 1 \<and>
   disconnectEvents 1 (effects (snd (stop example_encodeId (run example_encodeId
       [Start example_options, AddPeer 1, AddPeer 2, ConnectNotification 2] example_transport)))) = 1 \<and>
   disconnectEvents 2 (effects (snd (stop example_encodeId (run example_encodeId
       [Start example_options, AddPeer 1, AddPeer 2, ConnectNotification 2] example_transport)))) = 0 \<and>
   disconnectEvents 1 (effects (run example_encodeId
       [Start example_options, AddPeer 1, AddPeer 2, ConnectNotification 2] example_transport)) <
     disconnectEvents 1 (effects (snd (stop example_encodeId (run example_encodeId
       [Start example_options, AddPeer 1, AddPeer 2, ConnectNotification 2] example_transport)))) \<and>
   started (run example_encodeId [Start example_options, AddPeer 2, ConnectNotification 2]
       example_transport) \<and>
   filter (\<lambda>q. syncDisconnect (heap (run example_encodeId
       [Start example_options, AddPeer 2, ConnectNotification 2] example_transport) q))
     (peers (run example_encodeId [Start example_options, AddPeer 2, ConnectNotification 2]
       example_transport)) = [] \<and>
   peers (snd (stop example_encodeId (run example_encodeId
       [Start example_options, AddPeer 2, ConnectNotification 2] example_transport))) = [2] \<and>
   stop example_encodeId (snd (stop example_encodeId (run example_encodeId
       [Start example_options, AddPeer 2, ConnectNotification 2] example_transport))) =
     (False, snd (stop example_encodeId (run example_encodeId
       [Start example_options, AddPeer 2, ConnectNotification 2] example_transport)))"
proof -
  let ?pre = "[Start example_options, AddPeer 1, AddPeer 2, ConnectNotification 2] :: nat operation list"
  let ?pre' = "[Start example_options, AddPeer 2, ConnectNotification 2] :: nat operation list"
  let ?w = "run example_encodeId ?pre example_transport"
  let ?w' = "run example_encodeId ?pre' example_transport"
  have a: "?w = run example_encodeId ?pre
      (new_AbstractTransport ''t'' (fresh_heap (\<lambda>p. [of_nat p]) (\<lambda>p. p = 1) (\<lambda>p. p = 1)))"
    and a': "?w' = run example_encodeId ?pre'
      (new_AbstractTransport ''t'' (fresh_heap (\<lambda>p. [of_nat p]) (\<lambda>p. p = 1) (\<lambda>p. p = 1)))"
    by (simp_all only: example_transport_def example_heap_def)
  have s: "started ?w" and s': "started ?w'" by (simp_all add: eval_defs)
  have p: "peers ?w = [1, 2]" and p': "peers ?w' = [2]" by (simp_all add: eval_defs)
  have n: "filter (\<lambda>q. syncDisconnect (heap ?w' q)) (peers ?w') = []"
    unfolding p' by (simp add: eval_defs)
  have v: "peers (snd (stop example_encodeId ?w)) = [2]"
    "disconnectCalls 1 (effects (snd (stop example_encodeId ?w))) = 1"
    "disconnectCalls 2 (effects (snd (stop example_encodeId ?w))) = 1"
    "disconnectEvents 1 (effects (snd (stop example_encodeId ?w))) = 1"
    "disconnectEvents 2 (effects (snd (stop example_encodeId ?w))) = 0"
    "peers (snd (stop example_encodeId ?w')) = [2]"
    by (simp_all add: eval_defs)
  have m: "1 \<in> set (peers ?w)" "1 \<notin> set (peers (snd (stop example_encodeId ?w)))"
    unfolding p v by simp_all
  from C6_stop_requests_disconnects [OF a s, of 1] m
  have i: "fst (stop example_encodeId ?w) = True"
    "disconnectEvents 1 (effects ?w) < disconnectEvents 1 (effects (snd (stop example_encodeId ?w)))"
    by blast+
  from C6_stop_requests_disconnects [OF a' s', of 2] n
  have i': "stop example_encodeId (snd (stop example_encodeId ?w')) =
      (False, snd (stop example_encodeId ?w'))"
    by blast
  from s s' p n v i i' show ?thesis by blast
qed

text \<open>
  C7. On a transport that is already started, \<open>start\<close> returns \<open>false\<close> and changes
  nothing at all: the started flag, the bound network context, the debug namespace and
  the tracked peers are those of before, whatever options are passed (the context is not
  rebound). On a stopped transport, \<open>start\<close> returns \<open>true\<close>, sets the started flag and
  binds the context built from the options passed.
\<close>

theorem C7_start_idempotent:
  "(started w \<longrightarrow>
      fst (start encodeId options w) = False \<and>
      snd (start encodeId options w) = w \<and>
      started (snd (start encodeId options w)) = started w \<and>
      u_network (snd (start encodeId options w)) = u_network w \<and>
      debug (snd (start encodeId options w)) = debug w \<and>
      peers (snd (start encodeId options w)) = peers w) \<and>
   (\<not> started w \<longrightarrow>
      fst (start encodeId options w) = True \<and>
      started (snd (start encodeId options w)) \<and>
      u_network (snd (start encodeId options w)) = Some
        \<lparr>networkIdBinary = options_networkId options,
         networkId = encodeId (options_networkId options),
         debugNamespace = ''ataraxia:'' @ networkName options @ '':'' @ transportName w\<rparr>)"
  by (simp add: started_def start_started start_stopped)

theorem C7_witness:
  "\<not> started example_transport \<and>
   fst (start example_encodeId example_options example_transport) = True \<and>
   started (snd (start example_encodeId example_options example_transport)) \<and>
   u_network (snd (start example_encodeId example_options example_transport)) =
     Some \<lparr>networkIdBinary = [1, 2, 3, 4], networkId = ''AQIDBA'', debugNamespace = ''ataraxia:net:t''\<rparr> \<and>
   start example_encodeId other_options (snd (start example_encodeId example_options example_transport)) =
     (False, snd (start example_encodeId example_options example_transport))"
proof -
  have a: "\<not> started example_transport"
    by (simp add: started_def example_transport_def new_AbstractTransport_def)
  have b: "started (snd (start example_encodeId example_options example_transport))"
    by (simp add: started_def example_transport_def new_AbstractTransport_def start_def debug_call_def Let_def)
  show ?thesis
    using a b
      C7_start_idempotent [where w = example_transport and encodeId = example_encodeId
        and options = example_options]
      C7_start_idempotent [where w = "snd (start example_encodeId example_options example_transport)"
        and encodeId = example_encodeId and options = other_options]
    by (simp add: example_transport_def new_AbstractTransport_def example_options_def
        example_encodeId_def prod_eq_iff)
qed

text \<open>
  C8. In every history from a freshly constructed transport, the \<open>network\<close> accessor
  fails exactly when the history has no call of \<open>start\<close>. Otherwise it returns the
  context bound by the most recent \<open>start\<close> that found the transport stopped:
  \<open>networkIdBinary\<close> is the id of those options, \<open>networkId\<close> its encoding by \<open>encodeId\<close>,
  and \<open>debugNamespace\<close> the namespace \<open>ataraxia:<networkName>:<transportName>\<close>. In
  particular a \<open>start\<close> on a stopped transport binds exactly these values.
\<close>

theorem C8_network_accessor:
  "network (run encodeId ops (new_AbstractTransport name h)) =
     (case bound_options Stopped None ops of
        None \<Rightarrow> Inl (Error ''Can't access network before start() is called'')
      | Some options \<Rightarrow> Inr (context_of encodeId name options)) \<and>
   (isl (network (run encodeId ops (new_AbstractTransport name h))) \<longleftrightarrow> filter isStart ops = []) \<and>
   (\<not> started w \<longrightarrow>
      network (snd (start encodeId options w)) =
        Inr \<lparr>networkIdBinary = options_networkId options,
             networkId = encodeId (options_networkId options),
             debugNamespace = ''ataraxia:'' @ networkName options @ '':'' @ transportName w\<rparr>)"
proof -
  let ?w0 = "new_AbstractTransport name h"
  have "u_network ?w0 = map_option (context_of encodeId (transportName ?w0)) None"
    by (simp add: new_AbstractTransport_def)
  from run_u_network [OF this, of ops]
  have u: "u_network (run encodeId ops ?w0) =
      map_option (context_of encodeId name) (bound_options Stopped None ops)"
    by (simp add: new_AbstractTransport_def lifecycle_of_def)
  have a: "network (run encodeId ops ?w0) =
     (case bound_options Stopped None ops of
        None \<Rightarrow> Inl (Error ''Can't access network before start() is called'')
      | Some options \<Rightarrow> Inr (context_of encodeId name options))"
    by (simp add: network_def u split: option.splits)
  have n: "bound_options Stopped None ops = None \<longleftrightarrow> filter isStart ops = []"
    using bound_options_None [of Stopped None ops] by simp
  have b: "isl (network (run encodeId ops ?w0)) \<longleftrightarrow> filter isStart ops = []"
    unfolding a n [symmetric] by (simp split: option.splits)
  have c: "\<not> started w \<longrightarrow>
      network (snd (start encodeId options w)) =
        Inr \<lparr>networkIdBinary = options_networkId options,
             networkId = encodeId (options_networkId options),
             debugNamespace = ''ataraxia:'' @ networkName options @ '':'' @ transportName w\<rparr>"
    by (simp add: started_def start_stopped network_def)
  from a b c show ?thesis by blast
qed

theorem C8_witness:
  "\<not> started example_transport \<and>
   network example_transport = Inl (Error ''Can't access network before start() is called'') \<and>
   network (run example_encodeId [AddPeer 1, Stop] example_transport) =
     Inl (Error ''Can't access network before start() is called'') \<and>
   network (snd (start example_encodeId example_options example_transport)) =
     Inr \<lparr>networkIdBinary = [1, 2, 3, 4], networkId = ''AQIDBA'', debugNamespace = ''ataraxia:net:t''\<rparr> \<and>
   network (run example_encodeId [Start example_options, Start other_options, Stop] example_transport) =
     Inr \<lparr>networkIdBinary = [1, 2, 3, 4], networkId = ''AQIDBA'', debugNamespace = ''ataraxia:net:t''\<rparr> \<and>
   network (run example_encodeId [Start example_options, Stop, Start other_options] example_transport) =
     Inr \<lparr>networkIdBinary = [9], networkId = ''?'', debugNamespace = ''ataraxia:other:t''\<rparr>"
proof -
  have a: "\<not> started example_transport" by (simp add: eval_defs)
  have n: "transportName example_transport = ''t''" by (simp add: eval_defs)
  have o1: "options_networkId example_options = [1, 2, 3, 4]" "networkName example_options = ''net''"
    "example_encodeId [1, 2, 3, 4] = ''AQIDBA''"
    by (simp_all add: example_options_def example_encodeId_def)
  note inst = C8_network_accessor [where encodeId = example_encodeId and name = "''t''"
      and h = example_heap and w = example_transport and options = example_options]
  have "network (run example_encodeId [] example_transport) =
      Inl (Error ''Can't access network before start() is called'')"
    using inst [where ops = "[]"] unfolding example_transport_def by simp
  moreover have "network (run example_encodeId [AddPeer 1, Stop] example_transport) =
      Inl (Error ''Can't access network before start() is called'')"
    using inst [where ops = "[AddPeer 1, Stop]"] unfolding example_transport_def by simp
  moreover have "network (snd (start example_encodeId example_options example_transport)) =
     Inr \<lparr>networkIdBinary = [1, 2, 3, 4], networkId = ''AQIDBA'', debugNamespace = ''ataraxia:net:t''\<rparr>"
    using inst [where ops = "[]"] a by (simp add: n o1)
  moreover have "network (run example_encodeId [Start example_options, Start other_options, Stop]
        example_transport) =
     Inr \<lparr>networkIdBinary = [1, 2, 3, 4], networkId = ''AQIDBA'', debugNamespace = ''ataraxia:net:t''\<rparr>"
    using inst [where ops = "[Start example_options, Start other_options, Stop]"]
    unfolding example_transport_def by (simp add: context_of_def o1)
  moreover have "network (run example_encodeId [Start example_options, Stop, Start other_options]
        example_transport) =
     Inr \<lparr>networkIdBinary = [9], networkId = ''?'', debugNamespace = ''ataraxia:other:t''\<rparr>"
    using inst [where ops = "[Start example_options, Stop, Start other_options]"]
    unfolding example_transport_def
    by (simp add: context_of_def other_options_def example_encodeId_def)
  ultimately show ?thesis using a by simp
qed

text \<open>
  C9. Neither \<open>addPeer\<close> nor the notifications read or write the started flag: run on
  a state with the flag set to any value, they do what they do otherwise and leave the
  flag at that value. On a stopped transport, started before or not, \<open>addPeer\<close> with a
  connected peer tracks the peer and emits a connect event before it returns; a
  disconnect notification then removes the peer and emits a disconnect event, a connect
  notification after that tracks it again and emits a connect event, and the transport is
  stopped throughout.
\<close>

theorem C9_not_gated_on_started:
  "addPeer encodeId p (w\<lparr>u_started := b\<rparr>) = (addPeer encodeId p w)\<lparr>u_started := b\<rparr> \<and>
   connectNotification encodeId p (w\<lparr>u_started := b\<rparr>) =
     (connectNotification encodeId p w)\<lparr>u_started := b\<rparr> \<and>
   disconnectNotification encodeId p (w\<lparr>u_started := b\<rparr>) =
     (disconnectNotification encodeId p w)\<lparr>u_started := b\<rparr> \<and>
   (\<not> started w \<and> connected (heap w p) \<longrightarrow>
      (let w1 = addPeer encodeId p w;
           w2 = disconnectNotification encodeId p w1;
           w3 = connectNotification encodeId p w2
       in p \<in> set (peers w1) \<and>
          effects w1 =
            effects w @ [DebugLog (debug w)
                           [''Peer with id'', encodeId (peer_id (heap w p)), ''is now available''],
                         PeerConnectEmit p] \<and>
          \<not> started w1 \<and>
          p \<notin> set (peers w2) \<and>
          disconnectEvents p (effects w1) < disconnectEvents p (effects w2) \<and>
          \<not> started w2 \<and>
          p \<in> set (peers w3) \<and>
          connectEvents p (effects w2) < connectEvents p (effects w3) \<and>
          \<not> started w3))"
proof -
  let ?w1 = "addPeer encodeId p w"
  let ?w2 = "disconnectNotification encodeId p ?w1"
  let ?w3 = "connectNotification encodeId p ?w2"
  have cl: "connectListeners (heap ?w2 p) = connectListeners (heap w p) @ [OnConnect p]"
    and dl: "disconnectListeners (heap ?w1 p) = disconnectListeners (heap w p) @ [OnDisconnect p]"
    by (simp_all add: disconnectNotification_heap addPeer_fields)
  have s: "started ?w1 = started w" "started ?w2 = started w" "started ?w3 = started w"
    by (simp_all add: started_def addPeer_frame connectNotification_frame
        disconnectNotification_frame)
  have a: "p \<in> set (peers ?w1) \<and>
      effects ?w1 =
        effects w @ [DebugLog (debug w)
                       [''Peer with id'', encodeId (peer_id (heap w p)), ''is now available''],
                     PeerConnectEmit p]"
    if "connected (heap w p)"
    using that by (simp add: addPeer_fields set_Set_add)
  have p2: "p \<notin> set (peers ?w2)"
    unfolding disconnectNotification_def [of encodeId p ?w1] dl
    by (rule fold_last_OnDisconnect)
  have e2: "disconnectEvents p (effects ?w1) < disconnectEvents p (effects ?w2)"
    by (simp add: disconnectNotification_disconnectEvents dl)
  have p3: "p \<in> set (peers ?w3)"
    unfolding connectNotification_def [of encodeId p ?w2] cl
    by (rule fold_last_OnConnect)
  have e3: "connectEvents p (effects ?w2) < connectEvents p (effects ?w3)"
    by (simp add: connectNotification_connectEvents cl)
  have frame: "addPeer encodeId p (w\<lparr>u_started := b\<rparr>) = (addPeer encodeId p w)\<lparr>u_started := b\<rparr> \<and>
      connectNotification encodeId p (w\<lparr>u_started := b\<rparr>) =
        (connectNotification encodeId p w)\<lparr>u_started := b\<rparr> \<and>
      disconnectNotification encodeId p (w\<lparr>u_started := b\<rparr>) =
        (disconnectNotification encodeId p w)\<lparr>u_started := b\<rparr>"
    by (simp only: addPeer_started connectNotification_started disconnectNotification_started)
  from a p2 e2 p3 e3 s frame show ?thesis
    unfolding Let_def by blast
qed

theorem C9_witness:
  "\<not> started example_transport \<and> connected (heap example_transport 1) \<and>
   peers (addPeer example_encodeId 1 example_transport) = [1] \<and>
   effects (addPeer example_encodeId 1 example_transport) =
     [DebugLog ''ataraxia:no-network:t'' [''Peer with id'', ''?'', ''is now available''],
      PeerConnectEmit 1] \<and>
   \<not> started (addPeer example_encodeId 1 example_transport) \<and>
   1 \<notin> set (peers (disconnectNotification example_encodeId 1
       (addPeer example_encodeId 1 example_transport))) \<and>
   disconnectEvents 1 (effects (addPeer example_encodeId 1 example_transport)) <
     disconnectEvents 1 (effects (disconnectNotification example_encodeId 1
       (addPeer example_encodeId 1 example_transport))) \<and>
   1 \<in> set (peers (connectNotification example_encodeId 1
       (disconnectNotification example_encodeId 1
         (addPeer example_encodeId 1 example_transport))))"
proof -
  have a: "\<not> started example_transport" "connected (heap example_transport 1)"
    by (simp_all add: eval_defs)
  have v: "peers (addPeer example_encodeId 1 example_transport) = [1]"
    "effects (addPeer example_encodeId 1 example_transport) =
     [DebugLog ''ataraxia:no-network:t'' [''Peer with id'', ''?'', ''is now available''],
      PeerConnectEmit 1]"
    by (simp_all add: eval_defs)
  from C9_not_gated_on_started [where w = example_transport and p = 1
      and encodeId = example_encodeId and b = True, unfolded Let_def] a
  have i: "\<not> started (addPeer example_encodeId 1 example_transport)"
    "1 \<notin> set (peers (disconnectNotification example_encodeId 1
       (addPeer example_encodeId 1 example_transport)))"
    "disconnectEvents 1 (effects (addPeer example_encodeId 1 example_transport)) <
     disconnectEvents 1 (effects (disconnectNotification example_encodeId 1
       (addPeer example_encodeId 1 example_transport)))"
    "1 \<in> set (peers (connectNotification example_encodeId 1
       (disconnectNotification example_encodeId 1
         (addPeer example_encodeId 1 example_transport))))"
    by blast+
  from a v i show ?thesis by blast
qed

text \<open>
  C10. \<open>stop\<close> never changes the bound context, the transport name or the debug
  namespace, so the \<open>network\<close> accessor gives after \<open>stop\<close> what it gave before. Of the
  fields that \<open>stop\<close> assigns itself, the started flag is the only one: on a stopped
  transport \<open>stop\<close> changes nothing, on a started one it clears the flag and calls
  \<open>disconnect()\<close> on the tracked peers, and when none of them notifies inside
  \<open>disconnect()\<close> the flag and the calls recorded are all that differs. After a \<open>start\<close>
  that succeeded, whatever follows short of another \<open>start\<close>, and then a \<open>stop\<close>, the
  accessor still returns the context bound by that \<open>start\<close>, without an error.
\<close>

theorem C10_network_survives_stop:
  "u_network (snd (stop encodeId w)) = u_network w \<and>
   network (snd (stop encodeId w)) = network w \<and>
   transportName (snd (stop encodeId w)) = transportName w \<and>
   debug (snd (stop encodeId w)) = debug w \<and>
   \<not> started (snd (stop encodeId w)) \<and>
   (started w \<and> filter (\<lambda>q. syncDisconnect (heap w q)) (peers w) = [] \<longrightarrow>
      snd (stop encodeId w) =
        w\<lparr>effects := effects w @ map DisconnectCall (peers w), u_started := False\<rparr>) \<and>
   (\<not> started w \<longrightarrow> snd (stop encodeId w) = w) \<and>
   (\<not> started w \<longrightarrow> filter isStart ops = [] \<longrightarrow>
      fst (start encodeId options w) = True \<and>
      network (snd (stop encodeId (run encodeId ops (snd (start encodeId options w))))) =
        Inr (context_of encodeId (transportName w) options))"
proof -
  have a: "u_network (snd (stop encodeId w)) = u_network w \<and>
      network (snd (stop encodeId w)) = network w \<and>
      transportName (snd (stop encodeId w)) = transportName w \<and>
      debug (snd (stop encodeId w)) = debug w \<and>
      \<not> started (snd (stop encodeId w))"
    by (simp add: stop_frame stop_flag network_def started_def)
  have b: "snd (stop encodeId w) =
      w\<lparr>effects := effects w @ map DisconnectCall (peers w), u_started := False\<rparr>"
    if "started w \<and> filter (\<lambda>q. syncDisconnect (heap w q)) (peers w) = []"
  proof -
    from that have s: "u_started w"
      and "\<forall>q\<in>set (peers w). q \<in> set (peers w) \<and> \<not> syncDisconnect (heap w q)"
      by (simp_all add: started_def filter_empty_conv)
    from stop_loop_deferred [OF this(2), of encodeId] show ?thesis
      by (simp add: stop_started [OF s])
  qed
  have c: "\<not> started w \<longrightarrow> snd (stop encodeId w) = w"
    by (simp add: started_def stop_stopped)
  have d: "fst (start encodeId options w) = True \<and>
      network (snd (stop encodeId (run encodeId ops (snd (start encodeId options w))))) =
        Inr (context_of encodeId (transportName w) options)"
    if "\<not> started w" and "filter isStart ops = []"
  proof -
    from that(1) have s: "\<not> u_started w" by (simp add: started_def)
    have "u_network (snd (stop encodeId (run encodeId ops (snd (start encodeId options w))))) =
        u_network (snd (start encodeId options w))"
      by (simp add: stop_frame run_no_start [OF that(2)])
    then show ?thesis
      by (simp add: network_def start_stopped [OF s] context_of_def)
  qed
  from a b c d show ?thesis by blast
qed

theorem C10_witness:
  "\<not> started example_transport \<and>
   filter isStart [AddPeer (1::nat), Stop, DisconnectNotification 1] = [] \<and>
   network (snd (stop example_encodeId (run example_encodeId
       [AddPeer 1, Stop, DisconnectNotification 1]
       (snd (start example_encodeId example_options example_transport))))) =
     Inr \<lparr>networkIdBinary = [1, 2, 3, 4], networkId = ''AQIDBA'', debugNamespace = ''ataraxia:net:t''\<rparr> \<and>
   started (run example_encodeId [Start example_options, AddPeer 2, ConnectNotification 2]
       example_transport) \<and>
   filter (\<lambda>q. syncDisconnect (heap (run example_encodeId
       [Start example_options, AddPeer 2, ConnectNotification 2] example_transport) q))
     (peers (run example_encodeId [Start example_options, AddPeer 2, ConnectNotification 2]
       example_transport)) = [] \<and>
   snd (stop example_encodeId (run example_encodeId
       [Start example_options, AddPeer 2, ConnectNotification 2] example_transport)) =
     (run example_encodeId [Start example_options, AddPeer 2, ConnectNotification 2] example_transport)
       \<lparr>effects := effects (run example_encodeId
            [Start example_options, AddPeer 2, ConnectNotification 2] example_transport)
            @ map DisconnectCall (peers (run example_encodeId
                [Start example_options, AddPeer 2, ConnectNotification 2] example_transport)),
        u_started := False\<rparr> \<and>
   network (snd (stop example_encodeId (run example_encodeId
       [Start example_options, AddPeer 2, ConnectNotification 2] example_transport))) =
     Inr \<lparr>networkIdBinary = [1, 2, 3, 4], networkId = ''AQIDBA'', debugNamespace = ''ataraxia:net:t''\<rparr>"
proof -
  let ?ops = "[AddPeer 1, Stop, DisconnectNotification 1] :: nat operation list"
  let ?w' = "run example_encodeId [Start example_options, AddPeer 2, ConnectNotification 2]
      example_transport"
  have a: "\<not> started example_transport" by (simp add: eval_defs)
  have b: "filter isStart ?ops = []" by simp
  have c: "started ?w'" by (simp add: eval_defs)
  have p': "peers ?w' = [2]" by (simp add: eval_defs)
  have n: "filter (\<lambda>q. syncDisconnect (heap ?w' q)) (peers ?w') = []"
    unfolding p' by (simp add: eval_defs)
  have k: "context_of example_encodeId (transportName example_transport) example_options =
      \<lparr>networkIdBinary = [1, 2, 3, 4], networkId = ''AQIDBA'', debugNamespace = ''ataraxia:net:t''\<rparr>"
    by (simp add: eval_defs)
  have e: "network ?w' =
     Inr \<lparr>networkIdBinary = [1, 2, 3, 4], networkId = ''AQIDBA'', debugNamespace = ''ataraxia:net:t''\<rparr>"
    by (simp add: eval_defs)
  from C10_network_survives_stop [where w = example_transport and encodeId = example_encodeId
        and options = example_options and ops = ?ops] a b
  have i: "network (snd (stop example_encodeId (run example_encodeId ?ops
       (snd (start example_encodeId example_options example_transport))))) =
     Inr (context_of example_encodeId (transportName example_transport) example_options)"
    by blast
  from C10_network_survives_stop [where w = ?w' and encodeId = example_encodeId
        and options = other_options and ops = "[]"] c n
  have i': "snd (stop example_encodeId ?w') =
      ?w'\<lparr>effects := effects ?w' @ map DisconnectCall (peers ?w'), u_started := False\<rparr>"
    "network (snd (stop example_encodeId ?w')) = network ?w'"
    by blast+
  from a b c n i [unfolded k] i' [unfolded e] show ?thesis by blast
qed

end
